theory Spec2Isabelle
  imports Main
begin

section \<open>Rows, driver failures and domain errors\<close>

text \<open>
  The repositories of package \<open>repository\<close> (\<open>postgres/user.go\<close> and its siblings for
  schools, reviews and certificates) talk to PostgreSQL through \<open>sqlx\<close>. A row is the list
  of its columns with their values in text form; \<open>domain.ID\<close> is a string type.
\<close>

type_synonym ID = string

type_synonym row = "(string \<times> string) list"

text \<open>Reading a struct field of a scanned row: a column that was not scanned keeps Go's
  zero value, the empty string.\<close>

definition column :: "row \<Rightarrow> string \<Rightarrow> string" where
  "column r c = (case map_of r c of Some v \<Rightarrow> v | None \<Rightarrow> [])"

text \<open>\<open>pgUser.ID\<close>, \<open>pgSchool.ID\<close>, ...: the field bound to column \<open>id\<close>.\<close>

definition row_ID :: "row \<Rightarrow> ID" where
  "row_ID r = column r ''id''"

text \<open>\<open>*pgconn.PgError\<close>, with the fields its \<open>Error()\<close> prints.\<close>

datatype PgError = PgError (Severity: string) (Code: string) (Message: string)

text \<open>
  What a driver call can return as \<open>err\<close>: the sentinel \<open>sql.ErrNoRows\<close>, a server error,
  the two errors of a finished context (\<open>context.Canceled\<close>, \<open>context.DeadlineExceeded\<close>),
  or any other failure (connection lost, scan error, ...), known by its text only.
\<close>

datatype driver_error =
    ErrNoRows
  | Pg PgError
  | Canceled
  | DeadlineExceeded
  | DriverFailure string

text \<open>\<open>err.Error()\<close>.\<close>

fun Error :: "driver_error \<Rightarrow> string" where
  "Error ErrNoRows = ''sql: no rows in result set''"
| "Error (Pg p) = Severity p @ '': '' @ Message p @ '' (SQLSTATE '' @ Code p @ '')''"
| "Error Canceled = ''context canceled''"
| "Error DeadlineExceeded = ''context deadline exceeded''"
| "Error (DriverFailure m) = m"

text \<open>\<open>errors.As(err, &pgErr)\<close>: \<open>Some\<close> when the failure is a \<open>*pgconn.PgError\<close>.\<close>

fun errors_As :: "driver_error \<Rightarrow> PgError option" where
  "errors_As (Pg p) = Some p"
| "errors_As ErrNoRows = None"
| "errors_As Canceled = None"
| "errors_As DeadlineExceeded = None"
| "errors_As (DriverFailure m) = None"

text \<open>The sentinels of package \<open>errs\<close> the repositories wrap: the closed set of domain
  error kinds (\<open>ErrNotExist\<close> is the kind the specification calls NotFound).\<close>

datatype errs =
    ErrNotExist
  | ErrDuplicate
  | ErrEnumValueError
  | ErrUpdateFailed
  | ErrDeleteFailed
  | ErrPersistenceFailed

text \<open>
  An error handed to the caller: \<open>errors.Wrap(sentinel, text)\<close> keeps the sentinel as the
  cause and the text as the message (the driver's error value itself is not in the chain);
  \<open>Unwrapped\<close> is a driver error returned as it came.
\<close>

datatype error =
    Wrap errs string
  | Unwrapped driver_error

fun kind :: "error \<Rightarrow> errs option" where
  "kind (Wrap k m) = Some k"
| "kind (Unwrapped e) = None"

section \<open>Statements and their effect on the relations\<close>

text \<open>
  The statement texts of the source, as terms. The schema qualifier \<open>public.\<close> is left
  out of relation names. Conditions are the columns compared, in order, with the
  positional parameters \<open>$1\<close>, \<open>$2\<close>, ...

  \<^item> \<open>Select None rel cs\<close> is \<open>SELECT * FROM rel WHERE c1 = $1 AND ...\<close>, and
    \<open>Select (Some cols) rel cs\<close> selects the columns \<open>cols\<close>;
  \<^item> \<open>SelectJoin a (ac, bc) b (bc', cc) c cs\<close> is
    \<open>SELECT a.* FROM a JOIN b ON a.ac = b.bc JOIN c ON b.bc' = c.cc WHERE c.c1 = $1 ...\<close>;
  \<^item> \<open>SelectExists rel cs\<close> is \<open>SELECT EXISTS (SELECT 1 FROM rel WHERE ...)\<close>;
  \<^item> \<open>DeleteFrom rel cs\<close> is \<open>DELETE FROM rel WHERE ...\<close>;
  \<^item> \<open>InsertInto rel cols\<close> is \<open>INSERT INTO rel (cols) VALUES ($1, $2, ...)\<close>;
  \<^item> \<open>InsertNamed rel cols\<close> and \<open>UpdateNamed rel cols key\<close> are the statements with
    named parameters \<open>:col\<close> that \<open>NamedExecContext\<close> binds from a row struct.
\<close>

datatype query =
    Select "string list option" string "string list"
  | SelectJoin string "string \<times> string" string "string \<times> string" string "string list"
  | SelectExists string "string list"

datatype command =
    DeleteFrom string "string list"
  | InsertInto string "string list"

datatype named_command =
    InsertNamed string "string list"
  | UpdateNamed string "string list" string

type_synonym relations = "string \<Rightarrow> row list"

fun holds :: "row \<Rightarrow> string list \<Rightarrow> string list \<Rightarrow> bool" where
  "holds r [] args = True"
| "holds r (c # cs) [] = False"
| "holds r (c # cs) (a # args) = (map_of r c = Some a \<and> holds r cs args)"

definition project :: "string list option \<Rightarrow> row \<Rightarrow> row" where
  "project cols r = (case cols of None \<Rightarrow> r | Some cs \<Rightarrow> map (\<lambda>c. (c, column r c)) cs)"

fun joined :: "row \<Rightarrow> string \<Rightarrow> row \<Rightarrow> string \<Rightarrow> bool" where
  "joined ra ac rb bc =
     (case map_of ra ac of None \<Rightarrow> False | Some v \<Rightarrow> map_of rb bc = Some v)"

fun run_query :: "relations \<Rightarrow> query \<Rightarrow> string list \<Rightarrow> row list" where
  "run_query t (Select cols rel cs) args =
     map (project cols) (filter (\<lambda>r. holds r cs args) (t rel))"
| "run_query t (SelectJoin a (ac, bc) b (bc', cc) c cs) args =
     concat (map (\<lambda>ra.
       concat (map (\<lambda>rb.
         concat (map (\<lambda>rc.
           if joined ra ac rb bc \<and> joined rb bc' rc cc \<and> holds rc cs args then [ra] else [])
           (t c)))
         (t b)))
       (t a))"
| "run_query t (SelectExists rel cs) args =
     [[(''exists'', if filter (\<lambda>r. holds r cs args) (t rel) = [] then ''f'' else ''t'')]]"

text \<open>A command returns the number of rows it affected and the relations after it.\<close>

fun exec :: "relations \<Rightarrow> command \<Rightarrow> string list \<Rightarrow> nat \<times> relations" where
  "exec t (DeleteFrom rel cs) args =
     (length (filter (\<lambda>r. holds r cs args) (t rel)),
      t(rel := filter (\<lambda>r. \<not> holds r cs args) (t rel)))"
| "exec t (InsertInto rel cols) args = (1, t(rel := t rel @ [zip cols args]))"

definition set_columns :: "row \<Rightarrow> string list \<Rightarrow> row \<Rightarrow> row" where
  "set_columns r cols arg = map (\<lambda>(c, v). (c, if c \<in> set cols then column arg c else v)) r"

fun named_exec :: "relations \<Rightarrow> named_command \<Rightarrow> row \<Rightarrow> nat \<times> relations" where
  "named_exec t (InsertNamed rel cols) arg =
     (1, t(rel := t rel @ [map (\<lambda>c. (c, column arg c)) cols]))"
| "named_exec t (UpdateNamed rel cols key) arg =
     (length (filter (\<lambda>r. map_of r key = Some (column arg key)) (t rel)),
      t(rel := map (\<lambda>r. if map_of r key = Some (column arg key)
                          then set_columns r cols arg else r) (t rel)))"

section \<open>The database handle\<close>

text \<open>
  The caller's \<open>context.Context\<close>, as far as the driver looks at it: still active, cancelled,
  or past its deadline. \<open>Err\<close> is \<open>ctx.Err()\<close>.
\<close>

datatype Context = Active | Cancelled | Expired

fun Err :: "Context \<Rightarrow> driver_error option" where
  "Err Active = None"
| "Err Cancelled = Some Canceled"
| "Err Expired = Some DeadlineExceeded"

text \<open>
  What stands behind \<open>*sqlx.DB\<close>: the relations, and the failures the environment will
  inject (constraint violations reported by the server, lost connections, a context
  cancelled while a statement runs), one entry per driver call to come; \<open>None\<close> lets the
  call run, and a call beyond the end of the script runs as well.
\<close>

record world =
  tables :: relations
  faults :: "driver_error option list"

text \<open>Every driver call first looks at the context, then at the script. A failed call
  leaves the relations as they were.\<close>

definition driver_call :: "Context \<Rightarrow> world \<Rightarrow> driver_error option \<times> world" where
  "driver_call ctx w =
     (case Err ctx of
        Some e \<Rightarrow> (Some e, w)
      | None \<Rightarrow> (case faults w of [] \<Rightarrow> (None, w) | f # fs \<Rightarrow> (f, w\<lparr>faults := fs\<rparr>)))"

text \<open>\<open>db.SelectContext\<close> scans every row of the result; no rows is an empty slice and no
  error.\<close>

definition SelectContext ::
  "Context \<Rightarrow> world \<Rightarrow> query \<Rightarrow> string list \<Rightarrow> (driver_error + row list) \<times> world" where
  "SelectContext ctx w q args =
     (case driver_call ctx w of
        (Some e, w') \<Rightarrow> (Inl e, w')
      | (None, w') \<Rightarrow> (Inr (run_query (tables w') q args), w'))"

text \<open>\<open>db.GetContext\<close> scans the first row of the result and fails with \<open>sql.ErrNoRows\<close>
  when there is none.\<close>

definition GetContext ::
  "Context \<Rightarrow> world \<Rightarrow> query \<Rightarrow> string list \<Rightarrow> (driver_error + row) \<times> world" where
  "GetContext ctx w q args =
     (case driver_call ctx w of
        (Some e, w') \<Rightarrow> (Inl e, w')
      | (None, w') \<Rightarrow>
          (case run_query (tables w') q args of
             [] \<Rightarrow> (Inl ErrNoRows, w')
           | r # rs \<Rightarrow> (Inr r, w')))"

definition ExecContext ::
  "Context \<Rightarrow> world \<Rightarrow> command \<Rightarrow> string list \<Rightarrow> (driver_error + nat) \<times> world" where
  "ExecContext ctx w c args =
     (case driver_call ctx w of
        (Some e, w') \<Rightarrow> (Inl e, w')
      | (None, w') \<Rightarrow>
          (case exec (tables w') c args of (n, t) \<Rightarrow> (Inr n, w'\<lparr>tables := t\<rparr>)))"

definition NamedExecContext ::
  "Context \<Rightarrow> world \<Rightarrow> named_command \<Rightarrow> row \<Rightarrow> (driver_error + nat) \<times> world" where
  "NamedExecContext ctx w c arg =
     (case driver_call ctx w of
        (Some e, w') \<Rightarrow> (Inl e, w')
      | (None, w') \<Rightarrow>
          (case named_exec (tables w') c arg of (n, t) \<Rightarrow> (Inr n, w'\<lparr>tables := t\<rparr>)))"

section \<open>The statement builder\<close>

text \<open>
  Modelled from the spec: package \<open>entity\<close> of this repository (the row structs, their
  constructors \<open>NewPg...\<close>, \<open>ToDomain\<close>, \<open>InsertQueryString\<close> and \<open>UpdateQueryString\<close>) is
  not among the source files. The specification (4.2) says of the builder: the INSERT
  statement binds every column of the row to a named parameter.
\<close>

definition InsertQueryString :: "row \<Rightarrow> string \<Rightarrow> named_command" where
  "InsertQueryString r table = InsertNamed table (map fst r)"

text \<open>
  Modelled from the spec: \<open>entity.UpdateQueryString\<close> is not among the source files. The
  specification (4.2): the UPDATE statement binds every non-key column to a named
  parameter, with the key column as the WHERE predicate; the key is the entity's ID (6).
\<close>

definition UpdateQueryString :: "row \<Rightarrow> string \<Rightarrow> named_command" where
  "UpdateQueryString r table = UpdateNamed table (filter (\<lambda>c. c \<noteq> ''id'') (map fst r)) ''id''"

section \<open>The user repository (postgres/user.go)\<close>

text \<open>
  The domain types and the conversions of package \<open>entity\<close> are parameters of each method:
  \<open>NewPgUser\<close> builds the row of a domain user, \<open>ToDomain\<close> converts a scanned row back.
  \<open>PgUniqueViolationCode\<close> and \<open>PgEnumValueError\<close> are constants of the package whose
  declaration is not among the source files; they are parameters too.
\<close>

definition userFindAllQuery :: query where
  "userFindAllQuery = Select None ''user'' []"

definition userFindByIDQuery :: query where
  "userFindByIDQuery = Select None ''user'' [''id'']"

definition userFindByEmailQuery :: query where
  "userFindByEmailQuery = Select None ''user'' [''email'']"

definition userFindByCredentialsQuery :: query where
  "userFindByCredentialsQuery = Select None ''user'' [''email'', ''password'']"

definition userFindUserInfoQuery :: query where
  "userFindUserInfoQuery = Select (Some [''name'', ''surname'']) ''user'' [''id'']"

definition userDeleteQuery :: command where
  "userDeleteQuery = DeleteFrom ''user'' [''id'']"

record UserInfo =
  Name :: string
  Surname :: string

definition user_FindAll ::
  "(row \<Rightarrow> 'u) \<Rightarrow> Context \<Rightarrow> world \<Rightarrow> (error + 'u list) \<times> world" where
  "user_FindAll ToDomain ctx w =
     (case SelectContext ctx w userFindAllQuery [] of
        (Inl err, w') \<Rightarrow>
          (if err = ErrNoRows then (Inl (Wrap ErrNotExist (Error err)), w')
           else (Inl (Wrap ErrPersistenceFailed (Error err)), w'))
      | (Inr pgUsers, w') \<Rightarrow> (Inr (map ToDomain pgUsers), w'))"

definition user_FindByID ::
  "(row \<Rightarrow> 'u) \<Rightarrow> Context \<Rightarrow> world \<Rightarrow> ID \<Rightarrow> (error + 'u) \<times> world" where
  "user_FindByID ToDomain ctx w userID =
     (case GetContext ctx w userFindByIDQuery [userID] of
        (Inl err, w') \<Rightarrow>
          (if err = ErrNoRows then (Inl (Wrap ErrNotExist (Error err)), w')
           else (Inl (Wrap ErrPersistenceFailed (Error err)), w'))
      | (Inr pgUser, w') \<Rightarrow> (Inr (ToDomain pgUser), w'))"

definition user_FindByEmail ::
  "(row \<Rightarrow> 'u) \<Rightarrow> Context \<Rightarrow> world \<Rightarrow> string \<Rightarrow> (error + 'u) \<times> world" where
  "user_FindByEmail ToDomain ctx w email =
     (case GetContext ctx w userFindByEmailQuery [email] of
        (Inl err, w') \<Rightarrow>
          (if err = ErrNoRows then (Inl (Wrap ErrNotExist (Error err)), w')
           else (Inl (Wrap ErrPersistenceFailed (Error err)), w'))
      | (Inr pgUser, w') \<Rightarrow> (Inr (ToDomain pgUser), w'))"

definition user_FindByCredentials ::
  "(row \<Rightarrow> 'u) \<Rightarrow> Context \<Rightarrow> world \<Rightarrow> string \<Rightarrow> string \<Rightarrow> (error + 'u) \<times> world" where
  "user_FindByCredentials ToDomain ctx w email password =
     (case GetContext ctx w userFindByCredentialsQuery [email, password] of
        (Inl err, w') \<Rightarrow>
          (if err = ErrNoRows then (Inl (Wrap ErrNotExist (Error err)), w')
           else (Inl (Wrap ErrPersistenceFailed (Error err)), w'))
      | (Inr pgUser, w') \<Rightarrow> (Inr (ToDomain pgUser), w'))"

definition user_FindUserInfo ::
  "Context \<Rightarrow> world \<Rightarrow> ID \<Rightarrow> (error + UserInfo) \<times> world" where
  "user_FindUserInfo ctx w userID =
     (case GetContext ctx w userFindUserInfoQuery [userID] of
        (Inl err, w') \<Rightarrow>
          (if err = ErrNoRows then (Inl (Wrap ErrNotExist (Error err)), w')
           else (Inl (Wrap ErrPersistenceFailed (Error err)), w'))
      | (Inr pgUser, w') \<Rightarrow>
          (Inr \<lparr>Name = column pgUser ''name'', Surname = column pgUser ''surname''\<rparr>, w'))"

definition user_Create ::
  "string \<Rightarrow> ('u \<Rightarrow> row) \<Rightarrow> (row \<Rightarrow> 'u) \<Rightarrow> Context \<Rightarrow> world \<Rightarrow> 'u \<Rightarrow> (error + 'u) \<times> world" where
  "user_Create PgUniqueViolationCode NewPgUser ToDomain ctx w user =
     (let pgUser = NewPgUser user;
          queryString = InsertQueryString pgUser ''user''
      in case NamedExecContext ctx w queryString pgUser of
        (Inl err, w') \<Rightarrow>
          (case errors_As err of
             Some pgErr \<Rightarrow>
               (if Code pgErr = PgUniqueViolationCode
                then (Inl (Wrap ErrDuplicate (Error err)), w')
                else (Inl (Wrap ErrPersistenceFailed (Error err)), w'))
           | None \<Rightarrow> (Inl (Wrap ErrPersistenceFailed (Error err)), w'))
      | (Inr n, w') \<Rightarrow>
          (case GetContext ctx w' userFindByIDQuery [row_ID pgUser] of
             (Inl err, w'') \<Rightarrow>
               (if err = ErrNoRows then (Inl (Wrap ErrNotExist (Error err)), w'')
                else (Inl (Wrap ErrPersistenceFailed (Error err)), w''))
           | (Inr createdUser, w'') \<Rightarrow> (Inr (ToDomain createdUser), w'')))"

definition user_Update ::
  "('u \<Rightarrow> row) \<Rightarrow> (row \<Rightarrow> 'u) \<Rightarrow> Context \<Rightarrow> world \<Rightarrow> 'u \<Rightarrow> (error + 'u) \<times> world" where
  "user_Update NewPgUser ToDomain ctx w user =
     (let pgUser = NewPgUser user;
          queryString = UpdateQueryString pgUser ''user''
      in case NamedExecContext ctx w queryString pgUser of
        (Inl err, w') \<Rightarrow> (Inl (Wrap ErrUpdateFailed (Error err)), w')
      | (Inr n, w') \<Rightarrow>
          (case GetContext ctx w' userFindByIDQuery [row_ID pgUser] of
             (Inl err, w'') \<Rightarrow>
               (if err = ErrNoRows then (Inl (Wrap ErrNotExist (Error err)), w'')
                else (Inl (Wrap ErrPersistenceFailed (Error err)), w''))
           | (Inr updatedUser, w'') \<Rightarrow> (Inr (ToDomain updatedUser), w'')))"

definition user_Delete :: "Context \<Rightarrow> world \<Rightarrow> ID \<Rightarrow> error option \<times> world" where
  "user_Delete ctx w userID =
     (case ExecContext ctx w userDeleteQuery [userID] of
        (Inl err, w') \<Rightarrow> (Some (Wrap ErrDeleteFailed (Error err)), w')
      | (Inr n, w') \<Rightarrow> (None, w'))"

section \<open>The school repository\<close>

definition schoolFindAllQuery :: query where
  "schoolFindAllQuery = Select None ''school'' []"

definition schoolFindByIDQuery :: query where
  "schoolFindByIDQuery = Select None ''school'' [''id'']"

definition schoolFindUserSchoolsQuery :: query where
  "schoolFindUserSchoolsQuery = Select None ''school'' [''owner_id'']"

definition schoolFindSchoolCoursesQuery :: query where
  "schoolFindSchoolCoursesQuery = Select None ''course'' [''school_id'']"

definition schoolFindSchoolTeachersQuery :: query where
  "schoolFindSchoolTeachersQuery = SelectJoin ''user'' (''id'', ''teacher_id'') ''school_teacher''
       (''school_id'', ''id'') ''school'' [''id'']"

definition schoolContainsTeacherQuery :: query where
  "schoolContainsTeacherQuery = SelectExists ''school_teacher'' [''school_id'', ''teacher_id'']"

definition schoolAddTeacherQuery :: command where
  "schoolAddTeacherQuery = InsertInto ''school_teacher'' [''teacher_id'', ''school_id'']"

definition schoolDeleteQuery :: command where
  "schoolDeleteQuery = DeleteFrom ''school'' [''id'']"

definition school_FindAll ::
  "(row \<Rightarrow> 's) \<Rightarrow> Context \<Rightarrow> world \<Rightarrow> (error + 's list) \<times> world" where
  "school_FindAll ToDomain ctx w =
     (case SelectContext ctx w schoolFindAllQuery [] of
        (Inl err, w') \<Rightarrow>
          (if err = ErrNoRows then (Inl (Wrap ErrNotExist (Error err)), w')
           else (Inl (Wrap ErrPersistenceFailed (Error err)), w'))
      | (Inr pgSchools, w') \<Rightarrow> (Inr (map ToDomain pgSchools), w'))"

definition school_FindByID ::
  "(row \<Rightarrow> 's) \<Rightarrow> Context \<Rightarrow> world \<Rightarrow> ID \<Rightarrow> (error + 's) \<times> world" where
  "school_FindByID ToDomain ctx w schoolID =
     (case GetContext ctx w schoolFindByIDQuery [schoolID] of
        (Inl err, w') \<Rightarrow>
          (if err = ErrNoRows then (Inl (Wrap ErrNotExist (Error err)), w')
           else (Inl (Wrap ErrPersistenceFailed (Error err)), w'))
      | (Inr pgSchool, w') \<Rightarrow> (Inr (ToDomain pgSchool), w'))"

definition school_FindUserSchools ::
  "(row \<Rightarrow> 's) \<Rightarrow> Context \<Rightarrow> world \<Rightarrow> ID \<Rightarrow> (error + 's list) \<times> world" where
  "school_FindUserSchools ToDomain ctx w userID =
     (case SelectContext ctx w schoolFindUserSchoolsQuery [userID] of
        (Inl err, w') \<Rightarrow>
          (if err = ErrNoRows then (Inl (Wrap ErrNotExist (Error err)), w')
           else (Inl (Wrap ErrPersistenceFailed (Error err)), w'))
      | (Inr pgSchools, w') \<Rightarrow> (Inr (map ToDomain pgSchools), w'))"

definition school_FindSchoolCourses ::
  "(row \<Rightarrow> 'c) \<Rightarrow> Context \<Rightarrow> world \<Rightarrow> ID \<Rightarrow> (error + 'c list) \<times> world" where
  "school_FindSchoolCourses ToDomain ctx w schoolID =
     (case SelectContext ctx w schoolFindSchoolCoursesQuery [schoolID] of
        (Inl err, w') \<Rightarrow>
          (if err = ErrNoRows then (Inl (Wrap ErrNotExist (Error err)), w')
           else (Inl (Wrap ErrPersistenceFailed (Error err)), w'))
      | (Inr pgCourses, w') \<Rightarrow> (Inr (map ToDomain pgCourses), w'))"

definition school_FindSchoolTeachers ::
  "(row \<Rightarrow> 'u) \<Rightarrow> Context \<Rightarrow> world \<Rightarrow> ID \<Rightarrow> (error + 'u list) \<times> world" where
  "school_FindSchoolTeachers ToDomain ctx w schoolID =
     (case SelectContext ctx w schoolFindSchoolTeachersQuery [schoolID] of
        (Inl err, w') \<Rightarrow>
          (if err = ErrNoRows then (Inl (Wrap ErrNotExist (Error err)), w')
           else (Inl (Wrap ErrPersistenceFailed (Error err)), w'))
      | (Inr pgUsers, w') \<Rightarrow> (Inr (map ToDomain pgUsers), w'))"

text \<open>The result of \<open>SELECT EXISTS\<close> is scanned into a \<open>bool\<close>; the error is returned
  as the driver gave it.\<close>

definition school_IsSchoolTeacher ::
  "Context \<Rightarrow> world \<Rightarrow> ID \<Rightarrow> ID \<Rightarrow> (error + bool) \<times> world" where
  "school_IsSchoolTeacher ctx w schoolID teacherID =
     (case GetContext ctx w schoolContainsTeacherQuery [schoolID, teacherID] of
        (Inl err, w') \<Rightarrow> (Inl (Unwrapped err), w')
      | (Inr r, w') \<Rightarrow> (Inr (column r ''exists'' = ''t''), w'))"

definition school_AddSchoolTeacher ::
  "string \<Rightarrow> Context \<Rightarrow> world \<Rightarrow> ID \<Rightarrow> ID \<Rightarrow> error option \<times> world" where
  "school_AddSchoolTeacher PgUniqueViolationCode ctx w schoolID teacherID =
     (case ExecContext ctx w schoolAddTeacherQuery [teacherID, schoolID] of
        (Inl err, w') \<Rightarrow>
          (case errors_As err of
             Some pgErr \<Rightarrow>
               (if Code pgErr = PgUniqueViolationCode
                then (Some (Wrap ErrDuplicate (Error err)), w')
                else (Some (Wrap ErrPersistenceFailed (Error err)), w'))
           | None \<Rightarrow> (Some (Wrap ErrPersistenceFailed (Error err)), w'))
      | (Inr n, w') \<Rightarrow> (None, w'))"

definition school_Create ::
  "string \<Rightarrow> ('s \<Rightarrow> row) \<Rightarrow> (row \<Rightarrow> 's) \<Rightarrow> Context \<Rightarrow> world \<Rightarrow> 's \<Rightarrow> (error + 's) \<times> world" where
  "school_Create PgUniqueViolationCode NewPgSchool ToDomain ctx w school =
     (let pgSchool = NewPgSchool school;
          queryString = InsertQueryString pgSchool ''school''
      in case NamedExecContext ctx w queryString pgSchool of
        (Inl err, w') \<Rightarrow>
          (case errors_As err of
             Some pgErr \<Rightarrow>
               (if Code pgErr = PgUniqueViolationCode
                then (Inl (Wrap ErrDuplicate (Error err)), w')
                else (Inl (Wrap ErrPersistenceFailed (Error err)), w'))
           | None \<Rightarrow> (Inl (Wrap ErrPersistenceFailed (Error err)), w'))
      | (Inr n, w') \<Rightarrow>
          (case GetContext ctx w' schoolFindByIDQuery [row_ID pgSchool] of
             (Inl err, w'') \<Rightarrow>
               (if err = ErrNoRows then (Inl (Wrap ErrNotExist (Error err)), w'')
                else (Inl (Wrap ErrPersistenceFailed (Error err)), w''))
           | (Inr createdSchool, w'') \<Rightarrow> (Inr (ToDomain createdSchool), w'')))"

definition school_Update ::
  "('s \<Rightarrow> row) \<Rightarrow> (row \<Rightarrow> 's) \<Rightarrow> Context \<Rightarrow> world \<Rightarrow> 's \<Rightarrow> (error + 's) \<times> world" where
  "school_Update NewPgSchool ToDomain ctx w school =
     (let pgSchool = NewPgSchool school;
          queryString = UpdateQueryString pgSchool ''school''
      in case NamedExecContext ctx w queryString pgSchool of
        (Inl err, w') \<Rightarrow> (Inl (Wrap ErrUpdateFailed (Error err)), w')
      | (Inr n, w') \<Rightarrow>
          (case GetContext ctx w' schoolFindByIDQuery [row_ID pgSchool] of
             (Inl err, w'') \<Rightarrow>
               (if err = ErrNoRows then (Inl (Wrap ErrNotExist (Error err)), w'')
                else (Inl (Wrap ErrPersistenceFailed (Error err)), w''))
           | (Inr updatedSchool, w'') \<Rightarrow> (Inr (ToDomain updatedSchool), w'')))"

definition school_Delete :: "Context \<Rightarrow> world \<Rightarrow> ID \<Rightarrow> error option \<times> world" where
  "school_Delete ctx w schoolID =
     (case ExecContext ctx w schoolDeleteQuery [schoolID] of
        (Inl err, w') \<Rightarrow> (Some (Wrap ErrDeleteFailed (Error err)), w')
      | (Inr n, w') \<Rightarrow> (None, w'))"

section \<open>The review repository\<close>

definition reviewFindAllQuery :: query where
  "reviewFindAllQuery = Select None ''review'' []"

definition reviewFindByIDQuery :: query where
  "reviewFindByIDQuery = Select None ''review'' [''id'']"

definition reviewFindUserReviewsQuery :: query where
  "reviewFindUserReviewsQuery = Select None ''review'' [''user_id'']"

definition reviewFindCourseReviewsQuery :: query where
  "reviewFindCourseReviewsQuery = Select None ''review'' [''course_id'']"

text \<open>The source's text is \<open>DELETE FROM public.school WHERE id = $1\<close>.\<close>

definition reviewDeleteQuery :: command where
  "reviewDeleteQuery = DeleteFrom ''school'' [''id'']"

definition review_FindAll ::
  "(row \<Rightarrow> 'r) \<Rightarrow> Context \<Rightarrow> world \<Rightarrow> (error + 'r list) \<times> world" where
  "review_FindAll ToDomain ctx w =
     (case SelectContext ctx w reviewFindAllQuery [] of
        (Inl err, w') \<Rightarrow>
          (if err = ErrNoRows then (Inl (Wrap ErrNotExist (Error err)), w')
           else (Inl (Wrap ErrPersistenceFailed (Error err)), w'))
      | (Inr pgReviews, w') \<Rightarrow> (Inr (map ToDomain pgReviews), w'))"

definition review_FindByID ::
  "(row \<Rightarrow> 'r) \<Rightarrow> Context \<Rightarrow> world \<Rightarrow> ID \<Rightarrow> (error + 'r) \<times> world" where
  "review_FindByID ToDomain ctx w reviewID =
     (case GetContext ctx w reviewFindByIDQuery [reviewID] of
        (Inl err, w') \<Rightarrow>
          (if err = ErrNoRows then (Inl (Wrap ErrNotExist (Error err)), w')
           else (Inl (Wrap ErrPersistenceFailed (Error err)), w'))
      | (Inr pgReview, w') \<Rightarrow> (Inr (ToDomain pgReview), w'))"

definition review_FindUserReviews ::
  "(row \<Rightarrow> 'r) \<Rightarrow> Context \<Rightarrow> world \<Rightarrow> ID \<Rightarrow> (error + 'r list) \<times> world" where
  "review_FindUserReviews ToDomain ctx w userID =
     (case SelectContext ctx w reviewFindUserReviewsQuery [userID] of
        (Inl err, w') \<Rightarrow>
          (if err = ErrNoRows then (Inl (Wrap ErrNotExist (Error err)), w')
           else (Inl (Wrap ErrPersistenceFailed (Error err)), w'))
      | (Inr pgReviews, w') \<Rightarrow> (Inr (map ToDomain pgReviews), w'))"

definition review_FindCourseReviews ::
  "(row \<Rightarrow> 'r) \<Rightarrow> Context \<Rightarrow> world \<Rightarrow> ID \<Rightarrow> (error + 'r list) \<times> world" where
  "review_FindCourseReviews ToDomain ctx w courseID =
     (case SelectContext ctx w reviewFindCourseReviewsQuery [courseID] of
        (Inl err, w') \<Rightarrow>
          (if err = ErrNoRows then (Inl (Wrap ErrNotExist (Error err)), w')
           else (Inl (Wrap ErrPersistenceFailed (Error err)), w'))
      | (Inr pgReviews, w') \<Rightarrow> (Inr (map ToDomain pgReviews), w'))"

definition review_Create ::
  "string \<Rightarrow> ('r \<Rightarrow> row) \<Rightarrow> (row \<Rightarrow> 'r) \<Rightarrow> Context \<Rightarrow> world \<Rightarrow> 'r \<Rightarrow> (error + 'r) \<times> world" where
  "review_Create PgUniqueViolationCode NewPgReview ToDomain ctx w review =
     (let pgReview = NewPgReview review;
          queryString = InsertQueryString pgReview ''review''
      in case NamedExecContext ctx w queryString pgReview of
        (Inl err, w') \<Rightarrow>
          (case errors_As err of
             Some pgErr \<Rightarrow>
               (if Code pgErr = PgUniqueViolationCode
                then (Inl (Wrap ErrDuplicate (Error err)), w')
                else (Inl (Wrap ErrPersistenceFailed (Error err)), w'))
           | None \<Rightarrow> (Inl (Wrap ErrPersistenceFailed (Error err)), w'))
      | (Inr n, w') \<Rightarrow>
          (case GetContext ctx w' reviewFindByIDQuery [row_ID pgReview] of
             (Inl err, w'') \<Rightarrow>
               (if err = ErrNoRows then (Inl (Wrap ErrNotExist (Error err)), w'')
                else (Inl (Wrap ErrPersistenceFailed (Error err)), w''))
           | (Inr createdReview, w'') \<Rightarrow> (Inr (ToDomain createdReview), w'')))"

definition review_Delete :: "Context \<Rightarrow> world \<Rightarrow> ID \<Rightarrow> error option \<times> world" where
  "review_Delete ctx w reviewID =
     (case ExecContext ctx w reviewDeleteQuery [reviewID] of
        (Inl err, w') \<Rightarrow> (Some (Wrap ErrDeleteFailed (Error err)), w')
      | (Inr n, w') \<Rightarrow> (None, w'))"

section \<open>The certificate repository\<close>

definition certificateFindAllQuery :: query where
  "certificateFindAllQuery = Select None ''certificate'' []"

definition certificateFindByIDQuery :: query where
  "certificateFindByIDQuery = Select None ''certificate'' [''id'']"

definition certificateFindByCourseAndUserIDQuery :: query where
  "certificateFindByCourseAndUserIDQuery = Select None ''certificate'' [''course_id'', ''user_id'']"

definition certificateFindUserCertificatesQuery :: query where
  "certificateFindUserCertificatesQuery = Select None ''certificate'' [''user_id'']"

definition certificate_FindAll ::
  "(row \<Rightarrow> 'k) \<Rightarrow> Context \<Rightarrow> world \<Rightarrow> (error + 'k list) \<times> world" where
  "certificate_FindAll ToDomain ctx w =
     (case SelectContext ctx w certificateFindAllQuery [] of
        (Inl err, w') \<Rightarrow>
          (if err = ErrNoRows then (Inl (Wrap ErrNotExist (Error err)), w')
           else (Inl (Wrap ErrPersistenceFailed (Error err)), w'))
      | (Inr pgCertificates, w') \<Rightarrow> (Inr (map ToDomain pgCertificates), w'))"

definition certificate_FindByID ::
  "(row \<Rightarrow> 'k) \<Rightarrow> Context \<Rightarrow> world \<Rightarrow> ID \<Rightarrow> (error + 'k) \<times> world" where
  "certificate_FindByID ToDomain ctx w certID =
     (case GetContext ctx w certificateFindByIDQuery [certID] of
        (Inl err, w') \<Rightarrow>
          (if err = ErrNoRows then (Inl (Wrap ErrNotExist (Error err)), w')
           else (Inl (Wrap ErrPersistenceFailed (Error err)), w'))
      | (Inr pgCertificate, w') \<Rightarrow> (Inr (ToDomain pgCertificate), w'))"

definition certificate_FindUserCertificates ::
  "(row \<Rightarrow> 'k) \<Rightarrow> Context \<Rightarrow> world \<Rightarrow> ID \<Rightarrow> (error + 'k list) \<times> world" where
  "certificate_FindUserCertificates ToDomain ctx w userID =
     (case SelectContext ctx w certificateFindUserCertificatesQuery [userID] of
        (Inl err, w') \<Rightarrow>
          (if err = ErrNoRows then (Inl (Wrap ErrNotExist (Error err)), w')
           else (Inl (Wrap ErrPersistenceFailed (Error err)), w'))
      | (Inr pgCertificates, w') \<Rightarrow> (Inr (map ToDomain pgCertificates), w'))"

definition certificate_FindUserCourseCertificate ::
  "(row \<Rightarrow> 'k) \<Rightarrow> Context \<Rightarrow> world \<Rightarrow> ID \<Rightarrow> ID \<Rightarrow> (error + 'k) \<times> world" where
  "certificate_FindUserCourseCertificate ToDomain ctx w courseID userID =
     (case GetContext ctx w certificateFindByCourseAndUserIDQuery [courseID, userID] of
        (Inl err, w') \<Rightarrow>
          (if err = ErrNoRows then (Inl (Wrap ErrNotExist (Error err)), w')
           else (Inl (Wrap ErrPersistenceFailed (Error err)), w'))
      | (Inr pgCertificate, w') \<Rightarrow> (Inr (ToDomain pgCertificate), w'))"

definition certificate_Create ::
  "string \<Rightarrow> string \<Rightarrow> ('k \<Rightarrow> row) \<Rightarrow> (row \<Rightarrow> 'k) \<Rightarrow> Context \<Rightarrow> world \<Rightarrow> 'k \<Rightarrow> (error + 'k) \<times> world" where
  "certificate_Create PgUniqueViolationCode PgEnumValueError NewPgCertificate ToDomain ctx w cert =
     (let pgCertificate = NewPgCertificate cert;
          queryString = InsertQueryString pgCertificate ''certificate''
      in case NamedExecContext ctx w queryString pgCertificate of
        (Inl err, w') \<Rightarrow>
          (case errors_As err of
             Some pgErr \<Rightarrow>
               (if Code pgErr = PgUniqueViolationCode
                then (Inl (Wrap ErrDuplicate (Error err)), w')
                else if Code pgErr = PgEnumValueError
                then (Inl (Wrap ErrEnumValueError (Error err)), w')
                else (Inl (Wrap ErrPersistenceFailed (Error err)), w'))
           | None \<Rightarrow> (Inl (Wrap ErrPersistenceFailed (Error err)), w'))
      | (Inr n, w') \<Rightarrow>
          (case GetContext ctx w' certificateFindByIDQuery [row_ID pgCertificate] of
             (Inl err, w'') \<Rightarrow>
               (if err = ErrNoRows then (Inl (Wrap ErrNotExist (Error err)), w'')
                else (Inl (Wrap ErrPersistenceFailed (Error err)), w''))
           | (Inr createdCertificate, w'') \<Rightarrow> (Inr (ToDomain createdCertificate), w'')))"

section \<open>Notions used in the statements, and sample data\<close>

text \<open>The rows of a relation whose \<open>id\<close> column holds the given ID.\<close>

definition rows_by_ID :: "relations \<Rightarrow> string \<Rightarrow> ID \<Rightarrow> row list" where
  "rows_by_ID t rel i = filter (\<lambda>r. map_of r ''id'' = Some i) (t rel)"

text \<open>A small database: one user, one school, one review and one certificate.\<close>

definition sample_tables :: relations where
  "sample_tables =
     (\<lambda>rel. [])
       (''user'' := [[(''id'', ''u1''), (''email'', ''a@x.com''), (''name'', ''Ann'')]],
        ''school'' := [[(''id'', ''s1''), (''owner_id'', ''u1''), (''name'', ''Lyceum'')]],
        ''review'' := [[(''id'', ''r1''), (''user_id'', ''u1''), (''text'', ''fine'')]],
        ''certificate'' := [[(''id'', ''k1''), (''user_id'', ''u1''), (''grade'', ''gold'')]])"

definition sample_world :: "driver_error option list \<Rightarrow> world" where
  "sample_world fs = \<lparr>tables = sample_tables, faults = fs\<rparr>"

text \<open>Server errors with the SQLSTATE codes of a unique violation (23505) and of an
  invalid enum input (22P02).\<close>

definition unique_violation :: PgError where
  "unique_violation = PgError ''ERROR'' ''23505'' ''duplicate key value''"

definition enum_violation :: PgError where
  "enum_violation = PgError ''ERROR'' ''22P02'' ''invalid input value for enum''"

section \<open>Driver calls and statements\<close>

lemma driver_call_tables: "driver_call ctx w = (x, w') \<Longrightarrow> tables w' = tables w"
  by (auto simp: driver_call_def split: option.splits list.splits)

lemma SelectContext_fail:
  "driver_call ctx w = (Some e, w') \<Longrightarrow> SelectContext ctx w q args = (Inl e, w')"
  by (simp add: SelectContext_def)

lemma SelectContext_run:
  "driver_call ctx w = (None, w') \<Longrightarrow>
   SelectContext ctx w q args = (Inr (run_query (tables w) q args), w')"
  by (simp add: SelectContext_def driver_call_tables)

lemma GetContext_fail:
  "driver_call ctx w = (Some e, w') \<Longrightarrow> GetContext ctx w q args = (Inl e, w')"
  by (simp add: GetContext_def)

lemma GetContext_run:
  "driver_call ctx w = (None, w') \<Longrightarrow>
   GetContext ctx w q args =
     (case run_query (tables w) q args of [] \<Rightarrow> (Inl ErrNoRows, w') | r # rs \<Rightarrow> (Inr r, w'))"
  by (simp add: GetContext_def driver_call_tables)

lemma ExecContext_fail:
  "driver_call ctx w = (Some e, w') \<Longrightarrow> ExecContext ctx w c args = (Inl e, w')"
  by (simp add: ExecContext_def)

lemma ExecContext_run:
  "driver_call ctx w = (None, w') \<Longrightarrow>
   ExecContext ctx w c args =
     (Inr (fst (exec (tables w) c args)), w'\<lparr>tables := snd (exec (tables w) c args)\<rparr>)"
  by (simp add: ExecContext_def driver_call_tables split: prod.splits)

lemma NamedExecContext_fail:
  "driver_call ctx w = (Some e, w') \<Longrightarrow> NamedExecContext ctx w c arg = (Inl e, w')"
  by (simp add: NamedExecContext_def)

lemma NamedExecContext_run:
  "driver_call ctx w = (None, w') \<Longrightarrow>
   NamedExecContext ctx w c arg =
     (Inr (fst (named_exec (tables w) c arg)),
      w'\<lparr>tables := snd (named_exec (tables w) c arg)\<rparr>)"
  by (simp add: NamedExecContext_def driver_call_tables split: prod.splits)

lemma driver_call_cases:
  obtains e w' where "driver_call ctx w = (Some e, w')" | w' where "driver_call ctx w = (None, w')"
  by (cases "driver_call ctx w") (metis not_Some_eq prod.collapse prod.inject)

lemma user_FindAll_fail:
  "driver_call ctx w = (Some e, w') \<Longrightarrow>
   user_FindAll ToDomain ctx w =
     (Inl (Wrap (if e = ErrNoRows then ErrNotExist else ErrPersistenceFailed) (Error e)), w')"
  by (simp add: user_FindAll_def SelectContext_fail)

lemma school_FindAll_fail:
  "driver_call ctx w = (Some e, w') \<Longrightarrow>
   school_FindAll ToDomain ctx w =
     (Inl (Wrap (if e = ErrNoRows then ErrNotExist else ErrPersistenceFailed) (Error e)), w')"
  by (simp add: school_FindAll_def SelectContext_fail)

lemma school_FindUserSchools_fail:
  "driver_call ctx w = (Some e, w') \<Longrightarrow>
   school_FindUserSchools ToDomain ctx w i =
     (Inl (Wrap (if e = ErrNoRows then ErrNotExist else ErrPersistenceFailed) (Error e)), w')"
  by (simp add: school_FindUserSchools_def SelectContext_fail)

lemma school_FindSchoolCourses_fail:
  "driver_call ctx w = (Some e, w') \<Longrightarrow>
   school_FindSchoolCourses ToDomain ctx w i =
     (Inl (Wrap (if e = ErrNoRows then ErrNotExist else ErrPersistenceFailed) (Error e)), w')"
  by (simp add: school_FindSchoolCourses_def SelectContext_fail)

lemma school_FindSchoolTeachers_fail:
  "driver_call ctx w = (Some e, w') \<Longrightarrow>
   school_FindSchoolTeachers ToDomain ctx w i =
     (Inl (Wrap (if e = ErrNoRows then ErrNotExist else ErrPersistenceFailed) (Error e)), w')"
  by (simp add: school_FindSchoolTeachers_def SelectContext_fail)

lemma review_FindAll_fail:
  "driver_call ctx w = (Some e, w') \<Longrightarrow>
   review_FindAll ToDomain ctx w =
     (Inl (Wrap (if e = ErrNoRows then ErrNotExist else ErrPersistenceFailed) (Error e)), w')"
  by (simp add: review_FindAll_def SelectContext_fail)

lemma review_FindUserReviews_fail:
  "driver_call ctx w = (Some e, w') \<Longrightarrow>
   review_FindUserReviews ToDomain ctx w i =
     (Inl (Wrap (if e = ErrNoRows then ErrNotExist else ErrPersistenceFailed) (Error e)), w')"
  by (simp add: review_FindUserReviews_def SelectContext_fail)

lemma review_FindCourseReviews_fail:
  "driver_call ctx w = (Some e, w') \<Longrightarrow>
   review_FindCourseReviews ToDomain ctx w i =
     (Inl (Wrap (if e = ErrNoRows then ErrNotExist else ErrPersistenceFailed) (Error e)), w')"
  by (simp add: review_FindCourseReviews_def SelectContext_fail)

lemma certificate_FindAll_fail:
  "driver_call ctx w = (Some e, w') \<Longrightarrow>
   certificate_FindAll ToDomain ctx w =
     (Inl (Wrap (if e = ErrNoRows then ErrNotExist else ErrPersistenceFailed) (Error e)), w')"
  by (simp add: certificate_FindAll_def SelectContext_fail)

lemma certificate_FindUserCertificates_fail:
  "driver_call ctx w = (Some e, w') \<Longrightarrow>
   certificate_FindUserCertificates ToDomain ctx w i =
     (Inl (Wrap (if e = ErrNoRows then ErrNotExist else ErrPersistenceFailed) (Error e)), w')"
  by (simp add: certificate_FindUserCertificates_def SelectContext_fail)

lemma user_FindByID_fail:
  "driver_call ctx w = (Some e, w') \<Longrightarrow>
   user_FindByID ToDomain ctx w i =
     (Inl (Wrap (if e = ErrNoRows then ErrNotExist else ErrPersistenceFailed) (Error e)), w')"
  by (simp add: user_FindByID_def GetContext_fail)

lemma user_FindByEmail_fail:
  "driver_call ctx w = (Some e, w') \<Longrightarrow>
   user_FindByEmail ToDomain ctx w i =
     (Inl (Wrap (if e = ErrNoRows then ErrNotExist else ErrPersistenceFailed) (Error e)), w')"
  by (simp add: user_FindByEmail_def GetContext_fail)

lemma user_FindByCredentials_fail:
  "driver_call ctx w = (Some e, w') \<Longrightarrow>
   user_FindByCredentials ToDomain ctx w i j =
     (Inl (Wrap (if e = ErrNoRows then ErrNotExist else ErrPersistenceFailed) (Error e)), w')"
  by (simp add: user_FindByCredentials_def GetContext_fail)

lemma school_FindByID_fail:
  "driver_call ctx w = (Some e, w') \<Longrightarrow>
   school_FindByID ToDomain ctx w i =
     (Inl (Wrap (if e = ErrNoRows then ErrNotExist else ErrPersistenceFailed) (Error e)), w')"
  by (simp add: school_FindByID_def GetContext_fail)

lemma review_FindByID_fail:
  "driver_call ctx w = (Some e, w') \<Longrightarrow>
   review_FindByID ToDomain ctx w i =
     (Inl (Wrap (if e = ErrNoRows then ErrNotExist else ErrPersistenceFailed) (Error e)), w')"
  by (simp add: review_FindByID_def GetContext_fail)

lemma certificate_FindByID_fail:
  "driver_call ctx w = (Some e, w') \<Longrightarrow>
   certificate_FindByID ToDomain ctx w i =
     (Inl (Wrap (if e = ErrNoRows then ErrNotExist else ErrPersistenceFailed) (Error e)), w')"
  by (simp add: certificate_FindByID_def GetContext_fail)

lemma certificate_FindUserCourseCertificate_fail:
  "driver_call ctx w = (Some e, w') \<Longrightarrow>
   certificate_FindUserCourseCertificate ToDomain ctx w i j =
     (Inl (Wrap (if e = ErrNoRows then ErrNotExist else ErrPersistenceFailed) (Error e)), w')"
  by (simp add: certificate_FindUserCourseCertificate_def GetContext_fail)

lemma user_FindUserInfo_fail:
  "driver_call ctx w = (Some e, w') \<Longrightarrow>
   user_FindUserInfo ctx w i =
     (Inl (Wrap (if e = ErrNoRows then ErrNotExist else ErrPersistenceFailed) (Error e)), w')"
  by (simp add: user_FindUserInfo_def GetContext_fail)

lemma school_IsSchoolTeacher_fail:
  "driver_call ctx w = (Some e, w') \<Longrightarrow>
   school_IsSchoolTeacher ctx w s t = (Inl (Unwrapped e), w')"
  by (simp add: school_IsSchoolTeacher_def GetContext_fail)

lemma driver_call_tables_update:
  "driver_call ctx (w\<lparr>tables := t\<rparr>) =
     (fst (driver_call ctx w), (snd (driver_call ctx w))\<lparr>tables := t\<rparr>)"
  by (simp add: driver_call_def split: option.splits list.splits)

lemma project_None: "project None = (\<lambda>r. r)"
  by (rule ext) (simp add: project_def)

lemma run_query_by_ID:
  "run_query t (Select None rel [''id'']) [i] = filter (\<lambda>r. map_of r ''id'' = Some i) (t rel)"
  by (simp add: project_None)


lemma user_Create_fail:
  "driver_call ctx w = (Some e, w') \<Longrightarrow>
   user_Create uq N ToDomain ctx w x =
     (Inl (Wrap (case errors_As e of
                   Some p \<Rightarrow> if Code p = uq then ErrDuplicate else ErrPersistenceFailed
                 | None \<Rightarrow> ErrPersistenceFailed) (Error e)), w')"
  by (simp add: user_Create_def NamedExecContext_fail Let_def split: option.splits)

lemma user_Create_readback_fail:
  "driver_call ctx w = (None, w1) \<Longrightarrow> driver_call ctx w1 = (Some e, w2) \<Longrightarrow>
   user_Create uq N ToDomain ctx w x =
     (Inl (Wrap (if e = ErrNoRows then ErrNotExist else ErrPersistenceFailed) (Error e)),
      w2\<lparr>tables := snd (named_exec (tables w) (InsertQueryString (N x) ''user'') (N x))\<rparr>)"
  by (simp add: user_Create_def NamedExecContext_run GetContext_fail Let_def
      driver_call_tables_update)


lemma school_Create_fail:
  "driver_call ctx w = (Some e, w') \<Longrightarrow>
   school_Create uq N ToDomain ctx w x =
     (Inl (Wrap (case errors_As e of
                   Some p \<Rightarrow> if Code p = uq then ErrDuplicate else ErrPersistenceFailed
                 | None \<Rightarrow> ErrPersistenceFailed) (Error e)), w')"
  by (simp add: school_Create_def NamedExecContext_fail Let_def split: option.splits)

lemma school_Create_readback_fail:
  "driver_call ctx w = (None, w1) \<Longrightarrow> driver_call ctx w1 = (Some e, w2) \<Longrightarrow>
   school_Create uq N ToDomain ctx w x =
     (Inl (Wrap (if e = ErrNoRows then ErrNotExist else ErrPersistenceFailed) (Error e)),
      w2\<lparr>tables := snd (named_exec (tables w) (InsertQueryString (N x) ''school'') (N x))\<rparr>)"
  by (simp add: school_Create_def NamedExecContext_run GetContext_fail Let_def
      driver_call_tables_update)


lemma review_Create_fail:
  "driver_call ctx w = (Some e, w') \<Longrightarrow>
   review_Create uq N ToDomain ctx w x =
     (Inl (Wrap (case errors_As e of
                   Some p \<Rightarrow> if Code p = uq then ErrDuplicate else ErrPersistenceFailed
                 | None \<Rightarrow> ErrPersistenceFailed) (Error e)), w')"
  by (simp add: review_Create_def NamedExecContext_fail Let_def split: option.splits)

lemma review_Create_readback_fail:
  "driver_call ctx w = (None, w1) \<Longrightarrow> driver_call ctx w1 = (Some e, w2) \<Longrightarrow>
   review_Create uq N ToDomain ctx w x =
     (Inl (Wrap (if e = ErrNoRows then ErrNotExist else ErrPersistenceFailed) (Error e)),
      w2\<lparr>tables := snd (named_exec (tables w) (InsertQueryString (N x) ''review'') (N x))\<rparr>)"
  by (simp add: review_Create_def NamedExecContext_run GetContext_fail Let_def
      driver_call_tables_update)


lemma certificate_Create_fail:
  "driver_call ctx w = (Some e, w') \<Longrightarrow>
   certificate_Create uq en N ToDomain ctx w x =
     (Inl (Wrap (case errors_As e of
                   Some p \<Rightarrow> if Code p = uq then ErrDuplicate
                             else if Code p = en then ErrEnumValueError else ErrPersistenceFailed
                 | None \<Rightarrow> ErrPersistenceFailed) (Error e)), w')"
  by (simp add: certificate_Create_def NamedExecContext_fail Let_def split: option.splits)

lemma certificate_Create_readback_fail:
  "driver_call ctx w = (None, w1) \<Longrightarrow> driver_call ctx w1 = (Some e, w2) \<Longrightarrow>
   certificate_Create uq en N ToDomain ctx w x =
     (Inl (Wrap (if e = ErrNoRows then ErrNotExist else ErrPersistenceFailed) (Error e)),
      w2\<lparr>tables := snd (named_exec (tables w) (InsertQueryString (N x) ''certificate'') (N x))\<rparr>)"
  by (simp add: certificate_Create_def NamedExecContext_run GetContext_fail Let_def
      driver_call_tables_update)


lemma user_Update_fail:
  "driver_call ctx w = (Some e, w') \<Longrightarrow>
   user_Update N ToDomain ctx w x = (Inl (Wrap ErrUpdateFailed (Error e)), w')"
  by (simp add: user_Update_def NamedExecContext_fail Let_def)

lemma user_Update_readback_fail:
  "driver_call ctx w = (None, w1) \<Longrightarrow> driver_call ctx w1 = (Some e, w2) \<Longrightarrow>
   user_Update N ToDomain ctx w x =
     (Inl (Wrap (if e = ErrNoRows then ErrNotExist else ErrPersistenceFailed) (Error e)),
      w2\<lparr>tables := snd (named_exec (tables w) (UpdateQueryString (N x) ''user'') (N x))\<rparr>)"
  by (simp add: user_Update_def NamedExecContext_run GetContext_fail Let_def
      driver_call_tables_update)

lemma user_Update_run:
  "driver_call ctx w = (None, w1) \<Longrightarrow> driver_call ctx w1 = (None, w2) \<Longrightarrow>
   user_Update N ToDomain ctx w x =
     (case filter (\<lambda>r. map_of r ''id'' = Some (row_ID (N x)))
             (snd (named_exec (tables w) (UpdateQueryString (N x) ''user'') (N x)) ''user'') of
        [] \<Rightarrow> Inl (Wrap ErrNotExist (Error ErrNoRows))
      | r # rs \<Rightarrow> Inr (ToDomain r),
      w2\<lparr>tables := snd (named_exec (tables w) (UpdateQueryString (N x) ''user'') (N x))\<rparr>)"
  by (simp add: user_Update_def NamedExecContext_run GetContext_run Let_def
      driver_call_tables_update userFindByIDQuery_def run_query_by_ID project_None split: list.splits)

lemma school_Update_fail:
  "driver_call ctx w = (Some e, w') \<Longrightarrow>
   school_Update N ToDomain ctx w x = (Inl (Wrap ErrUpdateFailed (Error e)), w')"
  by (simp add: school_Update_def NamedExecContext_fail Let_def)

lemma school_Update_readback_fail:
  "driver_call ctx w = (None, w1) \<Longrightarrow> driver_call ctx w1 = (Some e, w2) \<Longrightarrow>
   school_Update N ToDomain ctx w x =
     (Inl (Wrap (if e = ErrNoRows then ErrNotExist else ErrPersistenceFailed) (Error e)),
      w2\<lparr>tables := snd (named_exec (tables w) (UpdateQueryString (N x) ''school'') (N x))\<rparr>)"
  by (simp add: school_Update_def NamedExecContext_run GetContext_fail Let_def
      driver_call_tables_update)

lemma school_Update_run:
  "driver_call ctx w = (None, w1) \<Longrightarrow> driver_call ctx w1 = (None, w2) \<Longrightarrow>
   school_Update N ToDomain ctx w x =
     (case filter (\<lambda>r. map_of r ''id'' = Some (row_ID (N x)))
             (snd (named_exec (tables w) (UpdateQueryString (N x) ''school'') (N x)) ''school'') of
        [] \<Rightarrow> Inl (Wrap ErrNotExist (Error ErrNoRows))
      | r # rs \<Rightarrow> Inr (ToDomain r),
      w2\<lparr>tables := snd (named_exec (tables w) (UpdateQueryString (N x) ''school'') (N x))\<rparr>)"
  by (simp add: school_Update_def NamedExecContext_run GetContext_run Let_def
      driver_call_tables_update schoolFindByIDQuery_def run_query_by_ID project_None split: list.splits)

lemma user_Delete_fail:
  "driver_call ctx w = (Some e, w') \<Longrightarrow>
   user_Delete ctx w i = (Some (Wrap ErrDeleteFailed (Error e)), w')"
  by (simp add: user_Delete_def ExecContext_fail)

lemma user_Delete_run:
  "driver_call ctx w = (None, w') \<Longrightarrow>
   user_Delete ctx w i =
     (None, w'\<lparr>tables := (tables w)(''user'' :=
        filter (\<lambda>r. map_of r ''id'' \<noteq> Some i) (tables w ''user''))\<rparr>)"
  by (simp add: user_Delete_def ExecContext_run userDeleteQuery_def)

lemma school_Delete_fail:
  "driver_call ctx w = (Some e, w') \<Longrightarrow>
   school_Delete ctx w i = (Some (Wrap ErrDeleteFailed (Error e)), w')"
  by (simp add: school_Delete_def ExecContext_fail)

lemma school_Delete_run:
  "driver_call ctx w = (None, w') \<Longrightarrow>
   school_Delete ctx w i =
     (None, w'\<lparr>tables := (tables w)(''school'' :=
        filter (\<lambda>r. map_of r ''id'' \<noteq> Some i) (tables w ''school''))\<rparr>)"
  by (simp add: school_Delete_def ExecContext_run schoolDeleteQuery_def)

lemma review_Delete_fail:
  "driver_call ctx w = (Some e, w') \<Longrightarrow>
   review_Delete ctx w i = (Some (Wrap ErrDeleteFailed (Error e)), w')"
  by (simp add: review_Delete_def ExecContext_fail)

lemma review_Delete_run:
  "driver_call ctx w = (None, w') \<Longrightarrow>
   review_Delete ctx w i =
     (None, w'\<lparr>tables := (tables w)(''school'' :=
        filter (\<lambda>r. map_of r ''id'' \<noteq> Some i) (tables w ''school''))\<rparr>)"
  by (simp add: review_Delete_def ExecContext_run reviewDeleteQuery_def)

lemma school_AddSchoolTeacher_fail:
  "driver_call ctx w = (Some e, w') \<Longrightarrow>
   school_AddSchoolTeacher uq ctx w s t =
     (Some (Wrap (case errors_As e of
                    Some p \<Rightarrow> if Code p = uq then ErrDuplicate else ErrPersistenceFailed
                  | None \<Rightarrow> ErrPersistenceFailed) (Error e)), w')"
  by (simp add: school_AddSchoolTeacher_def ExecContext_fail split: option.splits)

lemma user_FindByID_run:
  "driver_call ctx w = (None, w') \<Longrightarrow>
   user_FindByID ToDomain ctx w i =
     (case rows_by_ID (tables w) ''user'' i of
        [] \<Rightarrow> Inl (Wrap ErrNotExist (Error ErrNoRows))
      | r # rs \<Rightarrow> Inr (ToDomain r), w')"
  by (simp add: user_FindByID_def GetContext_run userFindByIDQuery_def run_query_by_ID project_None
      rows_by_ID_def split: list.splits)

lemma school_FindByID_run:
  "driver_call ctx w = (None, w') \<Longrightarrow>
   school_FindByID ToDomain ctx w i =
     (case rows_by_ID (tables w) ''school'' i of
        [] \<Rightarrow> Inl (Wrap ErrNotExist (Error ErrNoRows))
      | r # rs \<Rightarrow> Inr (ToDomain r), w')"
  by (simp add: school_FindByID_def GetContext_run schoolFindByIDQuery_def run_query_by_ID project_None
      rows_by_ID_def split: list.splits)

lemma review_FindByID_run:
  "driver_call ctx w = (None, w') \<Longrightarrow>
   review_FindByID ToDomain ctx w i =
     (case rows_by_ID (tables w) ''review'' i of
        [] \<Rightarrow> Inl (Wrap ErrNotExist (Error ErrNoRows))
      | r # rs \<Rightarrow> Inr (ToDomain r), w')"
  by (simp add: review_FindByID_def GetContext_run reviewFindByIDQuery_def run_query_by_ID project_None
      rows_by_ID_def split: list.splits)

lemma certificate_FindByID_run:
  "driver_call ctx w = (None, w') \<Longrightarrow>
   certificate_FindByID ToDomain ctx w i =
     (case rows_by_ID (tables w) ''certificate'' i of
        [] \<Rightarrow> Inl (Wrap ErrNotExist (Error ErrNoRows))
      | r # rs \<Rightarrow> Inr (ToDomain r), w')"
  by (simp add: certificate_FindByID_def GetContext_run certificateFindByIDQuery_def run_query_by_ID project_None
      rows_by_ID_def split: list.splits)

lemma sample_driver_call [simp]:
  "driver_call Active (sample_world (f # fs)) = (f, sample_world fs)"
  "driver_call Active (sample_world []) = (None, sample_world [])"
  "driver_call Cancelled (sample_world fs) = (Some Canceled, sample_world fs)"
  by (simp_all add: driver_call_def sample_world_def)

lemma sample_world_sel [simp]:
  "tables (sample_world fs) = sample_tables"
  "faults (sample_world fs) = fs"
  "tables (sample_world fs\<lparr>tables := t\<rparr>) = t"
  by (simp_all add: sample_world_def)

lemma sample_tables_at [simp]:
  "sample_tables ''user'' = [[(''id'', ''u1''), (''email'', ''a@x.com''), (''name'', ''Ann'')]]"
  "sample_tables ''school'' = [[(''id'', ''s1''), (''owner_id'', ''u1''), (''name'', ''Lyceum'')]]"
  "sample_tables ''review'' = [[(''id'', ''r1''), (''user_id'', ''u1''), (''text'', ''fine'')]]"
  "sample_tables ''certificate'' = [[(''id'', ''k1''), (''user_id'', ''u1''), (''grade'', ''gold'')]]"
  "sample_tables ''school_teacher'' = []"
  by (simp_all add: sample_tables_def)

lemma driver_call_restore:
  "driver_call ctx w = (x, w') \<Longrightarrow> w'\<lparr>tables := tables w\<rparr> = w'"
proof -
  assume "driver_call ctx w = (x, w')"
  then have "tables w = tables w'" by (simp add: driver_call_tables)
  then show ?thesis by simp
qed

lemma filter_none_map:
  "filter P xs = [] \<Longrightarrow> map (\<lambda>r. if P r then f r else r) xs = xs"
  by (induction xs) (auto split: if_splits)

lemma filter_none_keep:
  "filter P xs = [] \<Longrightarrow> filter (\<lambda>r. \<not> P r) xs = xs"
  by (induction xs) (auto split: if_splits)

lemma named_exec_update_missing:
  "rows_by_ID t rel (row_ID a) = [] \<Longrightarrow> named_exec t (UpdateQueryString a rel) a = (0, t)"
  by (simp add: UpdateQueryString_def rows_by_ID_def row_ID_def filter_none_map)

lemma user_FindByID_missing:
  "rows_by_ID (tables w) ''user'' i = [] \<Longrightarrow> isl (fst (user_FindByID ToDomain ctx w i))"
  by (rule driver_call_cases [of ctx w])
     (simp_all add: user_FindByID_fail user_FindByID_run)

lemma school_FindByID_missing:
  "rows_by_ID (tables w) ''school'' i = [] \<Longrightarrow> isl (fst (school_FindByID ToDomain ctx w i))"
  by (rule driver_call_cases [of ctx w])
     (simp_all add: school_FindByID_fail school_FindByID_run)

lemma review_FindByID_missing:
  "rows_by_ID (tables w) ''review'' i = [] \<Longrightarrow> isl (fst (review_FindByID ToDomain ctx w i))"
  by (rule driver_call_cases [of ctx w])
     (simp_all add: review_FindByID_fail review_FindByID_run)

lemma certificate_FindByID_missing:
  "rows_by_ID (tables w) ''certificate'' i = [] \<Longrightarrow> isl (fst (certificate_FindByID ToDomain ctx w i))"
  by (rule driver_call_cases [of ctx w])
     (simp_all add: certificate_FindByID_fail certificate_FindByID_run)

lemma delete_missing_tables:
  "rows_by_ID t rel i = [] \<Longrightarrow>
   t(rel := filter (\<lambda>r. map_of r ''id'' \<noteq> Some i) (t rel)) = t"
  by (simp add: rows_by_ID_def filter_none_keep)

lemma user_Delete_missing:
  "driver_call ctx w = (None, w') \<Longrightarrow> rows_by_ID (tables w) ''user'' i = [] \<Longrightarrow>
   user_Delete ctx w i = (None, w')"
  by (simp add: user_Delete_run delete_missing_tables driver_call_restore)

lemma school_Delete_missing:
  "driver_call ctx w = (None, w') \<Longrightarrow> rows_by_ID (tables w) ''school'' i = [] \<Longrightarrow>
   school_Delete ctx w i = (None, w')"
  by (simp add: school_Delete_run delete_missing_tables driver_call_restore)

lemma review_Delete_missing:
  "driver_call ctx w = (None, w') \<Longrightarrow> rows_by_ID (tables w) ''school'' i = [] \<Longrightarrow>
   review_Delete ctx w i = (None, w')"
  by (simp add: review_Delete_run delete_missing_tables driver_call_restore)

lemma user_Delete_not_NotExist:
  "fst (user_Delete ctx w i) \<noteq> Some (Wrap ErrNotExist m)"
  by (rule driver_call_cases [of ctx w]) (simp_all add: user_Delete_fail user_Delete_run)

lemma school_Delete_not_NotExist:
  "fst (school_Delete ctx w i) \<noteq> Some (Wrap ErrNotExist m)"
  by (rule driver_call_cases [of ctx w]) (simp_all add: school_Delete_fail school_Delete_run)

lemma review_Delete_not_NotExist:
  "fst (review_Delete ctx w i) \<noteq> Some (Wrap ErrNotExist m)"
  by (rule driver_call_cases [of ctx w]) (simp_all add: review_Delete_fail review_Delete_run)

lemma user_Update_kinds:
  "fst (user_Update N ToDomain ctx w x) = Inl (Wrap k m) \<Longrightarrow>
   k = ErrUpdateFailed \<or> k = ErrNotExist \<or> k = ErrPersistenceFailed"
proof (rule driver_call_cases [of ctx w])
  fix e w' assume "driver_call ctx w = (Some e, w')"
  moreover assume "fst (user_Update N ToDomain ctx w x) = Inl (Wrap k m)"
  ultimately show ?thesis by (simp add: user_Update_fail)
next
  fix w1 assume d1: "driver_call ctx w = (None, w1)"
  assume r: "fst (user_Update N ToDomain ctx w x) = Inl (Wrap k m)"
  show ?thesis
  proof (rule driver_call_cases [of ctx w1])
    fix e w2 assume "driver_call ctx w1 = (Some e, w2)"
    with d1 r show ?thesis by (auto simp: user_Update_readback_fail split: if_splits)
  next
    fix w2 assume "driver_call ctx w1 = (None, w2)"
    with d1 r show ?thesis by (auto simp: user_Update_run split: list.splits)
  qed
qed

lemma school_Update_kinds:
  "fst (school_Update N ToDomain ctx w x) = Inl (Wrap k m) \<Longrightarrow>
   k = ErrUpdateFailed \<or> k = ErrNotExist \<or> k = ErrPersistenceFailed"
proof (rule driver_call_cases [of ctx w])
  fix e w' assume "driver_call ctx w = (Some e, w')"
  moreover assume "fst (school_Update N ToDomain ctx w x) = Inl (Wrap k m)"
  ultimately show ?thesis by (simp add: school_Update_fail)
next
  fix w1 assume d1: "driver_call ctx w = (None, w1)"
  assume r: "fst (school_Update N ToDomain ctx w x) = Inl (Wrap k m)"
  show ?thesis
  proof (rule driver_call_cases [of ctx w1])
    fix e w2 assume "driver_call ctx w1 = (Some e, w2)"
    with d1 r show ?thesis by (auto simp: school_Update_readback_fail split: if_splits)
  next
    fix w2 assume "driver_call ctx w1 = (None, w2)"
    with d1 r show ?thesis by (auto simp: school_Update_run split: list.splits)
  qed
qed

lemma user_Update_missing:
  assumes "driver_call ctx w = (None, wa)" and "driver_call ctx wa = (None, wb)"
    and "rows_by_ID (tables w) ''user'' (row_ID (N x)) = []"
  shows "NamedExecContext ctx w (UpdateQueryString (N x) ''user'') (N x) = (Inr 0, wa)"
    and "user_Update N ToDomain ctx w x = (Inl (Wrap ErrNotExist (Error ErrNoRows)), wb)"
proof -
  have t: "named_exec (tables w) (UpdateQueryString (N x) ''user'') (N x) = (0, tables w)"
    using assms(3) by (rule named_exec_update_missing)
  have "tables wa = tables w" using assms(1) by (rule driver_call_tables)
  then have wa: "wa\<lparr>tables := tables w\<rparr> = wa" by (simp add: sym)
  have "tables wb = tables wa" using assms(2) by (rule driver_call_tables)
  then have wb: "wb\<lparr>tables := tables w\<rparr> = wb" using \<open>tables wa = tables w\<close> by (simp add: sym)
  show "NamedExecContext ctx w (UpdateQueryString (N x) ''user'') (N x) = (Inr 0, wa)"
    using assms(1) by (simp add: NamedExecContext_run t wa)
  have "filter (\<lambda>r. map_of r ''id'' = Some (row_ID (N x))) (tables w ''user'') = []"
    using assms(3) by (simp add: rows_by_ID_def)
  then show "user_Update N ToDomain ctx w x = (Inl (Wrap ErrNotExist (Error ErrNoRows)), wb)"
    using assms(1,2) by (simp add: user_Update_run t wb)
qed

lemma school_Update_missing:
  assumes "driver_call ctx w = (None, wa)" and "driver_call ctx wa = (None, wb)"
    and "rows_by_ID (tables w) ''school'' (row_ID (N x)) = []"
  shows "NamedExecContext ctx w (UpdateQueryString (N x) ''school'') (N x) = (Inr 0, wa)"
    and "school_Update N ToDomain ctx w x = (Inl (Wrap ErrNotExist (Error ErrNoRows)), wb)"
proof -
  have t: "named_exec (tables w) (UpdateQueryString (N x) ''school'') (N x) = (0, tables w)"
    using assms(3) by (rule named_exec_update_missing)
  have "tables wa = tables w" using assms(1) by (rule driver_call_tables)
  then have wa: "wa\<lparr>tables := tables w\<rparr> = wa" by (simp add: sym)
  have "tables wb = tables wa" using assms(2) by (rule driver_call_tables)
  then have wb: "wb\<lparr>tables := tables w\<rparr> = wb" using \<open>tables wa = tables w\<close> by (simp add: sym)
  show "NamedExecContext ctx w (UpdateQueryString (N x) ''school'') (N x) = (Inr 0, wa)"
    using assms(1) by (simp add: NamedExecContext_run t wa)
  have "filter (\<lambda>r. map_of r ''id'' = Some (row_ID (N x))) (tables w ''school'') = []"
    using assms(3) by (simp add: rows_by_ID_def)
  then show "school_Update N ToDomain ctx w x = (Inl (Wrap ErrNotExist (Error ErrNoRows)), wb)"
    using assms(1,2) by (simp add: school_Update_run t wb)
qed





lemma sample_world_updated [simp]:
  "driver_call Active (sample_world []\<lparr>tables := t\<rparr>) = (None, sample_world []\<lparr>tables := t\<rparr>)"
  by (simp add: driver_call_def sample_world_def)

section \<open>The claims\<close>

text \<open>
  C1 (Review repository, Delete). The claim is that \<open>Delete(id)\<close> removes the review row
  with that ID and touches no other relation. The statement the method runs is
  \<open>reviewDeleteQuery\<close>, whose text names the relation \<open>school\<close>. On the sample database,
  deleting review \<open>r1\<close> reports success and leaves the review where it was; called with the
  ID of a school, the method reports success and removes the school.
\<close>

theorem review_Delete_deletes_from_school:
  "fst (review_Delete Active (sample_world []) ''r1'') = None \<and>
   tables (snd (review_Delete Active (sample_world []) ''r1'')) ''review''
     = [[(''id'', ''r1''), (''user_id'', ''u1''), (''text'', ''fine'')]] \<and>
   fst (review_Delete Active (sample_world []) ''s1'') = None \<and>
   tables (snd (review_Delete Active (sample_world []) ''s1'')) ''school'' = []"
  by (simp add: review_Delete_run)

text \<open>
  C2 (every failure is classified). \<open>IsSchoolTeacher\<close> returns the driver's error as it
  came: a refused connection reaches the caller unwrapped, with no domain error kind. Its
  sibling \<open>AddSchoolTeacher\<close> wraps the same failure as \<open>ErrPersistenceFailed\<close>.
\<close>

theorem IsSchoolTeacher_returns_driver_error:
  "school_IsSchoolTeacher Active (sample_world [Some (DriverFailure ''connection refused'')])
       ''s1'' ''u1''
     = (Inl (Unwrapped (DriverFailure ''connection refused'')), sample_world []) \<and>
   school_AddSchoolTeacher ''23505'' Active
       (sample_world [Some (DriverFailure ''connection refused'')]) ''s1'' ''u1''
     = (Some (Wrap ErrPersistenceFailed ''connection refused''), sample_world [])"
  by (simp add: school_IsSchoolTeacher_fail school_AddSchoolTeacher_fail)

text \<open>
  C3 (enum violation on Create). When the INSERT of a user, a school or a review fails with a
  server error whose code is that of an invalid enum value, \<open>Create\<close> returns
  \<open>ErrPersistenceFailed\<close>: only the certificate repository compares the code with
  \<open>PgEnumValueError\<close> and returns \<open>ErrEnumValueError\<close>.
\<close>

theorem Create_enum_violation_not_classified:
  "user_Create ''23505'' id id Active (sample_world [Some (Pg enum_violation)])
       [(''id'', ''u2''), (''email'', ''b@x.com'')]
     = (Inl (Wrap ErrPersistenceFailed ''ERROR: invalid input value for enum (SQLSTATE 22P02)''),
        sample_world []) \<and>
   school_Create ''23505'' id id Active (sample_world [Some (Pg enum_violation)])
       [(''id'', ''s2''), (''name'', ''Gymnasium'')]
     = (Inl (Wrap ErrPersistenceFailed ''ERROR: invalid input value for enum (SQLSTATE 22P02)''),
        sample_world []) \<and>
   review_Create ''23505'' id id Active (sample_world [Some (Pg enum_violation)])
       [(''id'', ''r2''), (''text'', ''poor'')]
     = (Inl (Wrap ErrPersistenceFailed ''ERROR: invalid input value for enum (SQLSTATE 22P02)''),
        sample_world []) \<and>
   certificate_Create ''23505'' ''22P02'' id id Active (sample_world [Some (Pg enum_violation)])
       [(''id'', ''k2''), (''grade'', ''platinum'')]
     = (Inl (Wrap ErrEnumValueError ''ERROR: invalid input value for enum (SQLSTATE 22P02)''),
        sample_world [])"
  by (simp add: user_Create_fail school_Create_fail review_Create_fail certificate_Create_fail
      enum_violation_def)

text \<open>
  C4, counterexample. With a cancelled context, \<open>FindByID\<close> of the user repository returns
  the cancellation wrapped as \<open>ErrPersistenceFailed\<close> and \<open>Delete\<close> returns it wrapped as
  \<open>ErrDeleteFailed\<close>: both are kinds of the storage-error taxonomy, and the context's own
  error is not what the caller gets.
\<close>

theorem cancelled_FindByID_is_PersistenceFailed:
  "user_FindByID id Cancelled (sample_world []) ''u1''
     = (Inl (Wrap ErrPersistenceFailed ''context canceled''), sample_world []) \<and>
   user_Delete Cancelled (sample_world []) ''u1''
     = (Some (Wrap ErrDeleteFailed ''context canceled''), sample_world []) \<and>
   fst (user_FindByID id Cancelled (sample_world []) ''u1'') \<noteq> Inl (Unwrapped Canceled) \<and>
   fst (user_Delete Cancelled (sample_world []) ''u1'') \<noteq> Some (Unwrapped Canceled)"
  by (simp add: user_FindByID_fail user_Delete_fail)

text \<open>
  C4, as amended. When a driver call fails with the error of a cancelled or expired context,
  every method that classifies its failures (all but \<open>IsSchoolTeacher\<close>) returns it wrapped
  into the storage-error taxonomy, keeping its text only: \<open>ErrPersistenceFailed\<close> for reads,
  inserts and the read-back of Create and Update, \<open>ErrUpdateFailed\<close> for the write step of
  Update, \<open>ErrDeleteFailed\<close> for Delete.
\<close>

theorem cancellation_is_classified:
  "(driver_call ctx w = (Some e, w') \<and> (e = Canceled \<or> e = DeadlineExceeded) \<longrightarrow>
      user_FindAll TDu ctx w = (Inl (Wrap ErrPersistenceFailed (Error e)), w') \<and>
      user_FindByID TDu ctx w i = (Inl (Wrap ErrPersistenceFailed (Error e)), w') \<and>
      user_FindByEmail TDu ctx w email = (Inl (Wrap ErrPersistenceFailed (Error e)), w') \<and>
      user_FindByCredentials TDu ctx w email password = (Inl (Wrap ErrPersistenceFailed (Error e)), w') \<and>
      user_FindUserInfo ctx w i = (Inl (Wrap ErrPersistenceFailed (Error e)), w') \<and>
      user_Create uq Nu TDu ctx w xu = (Inl (Wrap ErrPersistenceFailed (Error e)), w') \<and>
      user_Update Nu TDu ctx w xu = (Inl (Wrap ErrUpdateFailed (Error e)), w') \<and>
      user_Delete ctx w i = (Some (Wrap ErrDeleteFailed (Error e)), w') \<and>
      school_FindAll TDs ctx w = (Inl (Wrap ErrPersistenceFailed (Error e)), w') \<and>
      school_FindByID TDs ctx w i = (Inl (Wrap ErrPersistenceFailed (Error e)), w') \<and>
      school_FindUserSchools TDs ctx w i = (Inl (Wrap ErrPersistenceFailed (Error e)), w') \<and>
      school_FindSchoolCourses TDc ctx w i = (Inl (Wrap ErrPersistenceFailed (Error e)), w') \<and>
      school_FindSchoolTeachers TDu ctx w i = (Inl (Wrap ErrPersistenceFailed (Error e)), w') \<and>
      school_AddSchoolTeacher uq ctx w i j = (Some (Wrap ErrPersistenceFailed (Error e)), w') \<and>
      school_Create uq Ns TDs ctx w xs = (Inl (Wrap ErrPersistenceFailed (Error e)), w') \<and>
      school_Update Ns TDs ctx w xs = (Inl (Wrap ErrUpdateFailed (Error e)), w') \<and>
      school_Delete ctx w i = (Some (Wrap ErrDeleteFailed (Error e)), w') \<and>
      review_FindAll TDr ctx w = (Inl (Wrap ErrPersistenceFailed (Error e)), w') \<and>
      review_FindByID TDr ctx w i = (Inl (Wrap ErrPersistenceFailed (Error e)), w') \<and>
      review_FindUserReviews TDr ctx w i = (Inl (Wrap ErrPersistenceFailed (Error e)), w') \<and>
      review_FindCourseReviews TDr ctx w i = (Inl (Wrap ErrPersistenceFailed (Error e)), w') \<and>
      review_Create uq Nr TDr ctx w xr = (Inl (Wrap ErrPersistenceFailed (Error e)), w') \<and>
      review_Delete ctx w i = (Some (Wrap ErrDeleteFailed (Error e)), w') \<and>
      certificate_FindAll TDk ctx w = (Inl (Wrap ErrPersistenceFailed (Error e)), w') \<and>
      certificate_FindByID TDk ctx w i = (Inl (Wrap ErrPersistenceFailed (Error e)), w') \<and>
      certificate_FindUserCertificates TDk ctx w i = (Inl (Wrap ErrPersistenceFailed (Error e)), w') \<and>
      certificate_FindUserCourseCertificate TDk ctx w i j = (Inl (Wrap ErrPersistenceFailed (Error e)), w') \<and>
      certificate_Create uq en Nk TDk ctx w xk = (Inl (Wrap ErrPersistenceFailed (Error e)), w')) \<and>
   (driver_call ctx' v = (None, va) \<and> driver_call ctx' va = (Some e', vb) \<and>
    (e' = Canceled \<or> e' = DeadlineExceeded) \<longrightarrow>
      fst (user_Create uq Nu TDu ctx' v xu) = Inl (Wrap ErrPersistenceFailed (Error e')) \<and>
      fst (user_Update Nu TDu ctx' v xu) = Inl (Wrap ErrPersistenceFailed (Error e')) \<and>
      fst (school_Create uq Ns TDs ctx' v xs) = Inl (Wrap ErrPersistenceFailed (Error e')) \<and>
      fst (school_Update Ns TDs ctx' v xs) = Inl (Wrap ErrPersistenceFailed (Error e')) \<and>
      fst (review_Create uq Nr TDr ctx' v xr) = Inl (Wrap ErrPersistenceFailed (Error e')) \<and>
      fst (certificate_Create uq en Nk TDk ctx' v xk) = Inl (Wrap ErrPersistenceFailed (Error e')))"
proof (intro conjI impI; elim conjE)
  assume d: "driver_call ctx w = (Some e, w')" and c: "e = Canceled \<or> e = DeadlineExceeded"
  from c have ne: "e \<noteq> ErrNoRows" and na: "errors_As e = None" by auto
  show "user_FindAll TDu ctx w = (Inl (Wrap ErrPersistenceFailed (Error e)), w')"
    using d ne na by (simp add: user_FindAll_fail)
  show "user_FindByID TDu ctx w i = (Inl (Wrap ErrPersistenceFailed (Error e)), w')"
    using d ne na by (simp add: user_FindByID_fail)
  show "user_FindByEmail TDu ctx w email = (Inl (Wrap ErrPersistenceFailed (Error e)), w')"
    using d ne na by (simp add: user_FindByEmail_fail)
  show "user_FindByCredentials TDu ctx w email password = (Inl (Wrap ErrPersistenceFailed (Error e)), w')"
    using d ne na by (simp add: user_FindByCredentials_fail)
  show "user_FindUserInfo ctx w i = (Inl (Wrap ErrPersistenceFailed (Error e)), w')"
    using d ne na by (simp add: user_FindUserInfo_fail)
  show "user_Create uq Nu TDu ctx w xu = (Inl (Wrap ErrPersistenceFailed (Error e)), w')"
    using d ne na by (simp add: user_Create_fail)
  show "user_Update Nu TDu ctx w xu = (Inl (Wrap ErrUpdateFailed (Error e)), w')"
    using d ne na by (simp add: user_Update_fail)
  show "user_Delete ctx w i = (Some (Wrap ErrDeleteFailed (Error e)), w')"
    using d ne na by (simp add: user_Delete_fail)
  show "school_FindAll TDs ctx w = (Inl (Wrap ErrPersistenceFailed (Error e)), w')"
    using d ne na by (simp add: school_FindAll_fail)
  show "school_FindByID TDs ctx w i = (Inl (Wrap ErrPersistenceFailed (Error e)), w')"
    using d ne na by (simp add: school_FindByID_fail)
  show "school_FindUserSchools TDs ctx w i = (Inl (Wrap ErrPersistenceFailed (Error e)), w')"
    using d ne na by (simp add: school_FindUserSchools_fail)
  show "school_FindSchoolCourses TDc ctx w i = (Inl (Wrap ErrPersistenceFailed (Error e)), w')"
    using d ne na by (simp add: school_FindSchoolCourses_fail)
  show "school_FindSchoolTeachers TDu ctx w i = (Inl (Wrap ErrPersistenceFailed (Error e)), w')"
    using d ne na by (simp add: school_FindSchoolTeachers_fail)
  show "school_AddSchoolTeacher uq ctx w i j = (Some (Wrap ErrPersistenceFailed (Error e)), w')"
    using d ne na by (simp add: school_AddSchoolTeacher_fail)
  show "school_Create uq Ns TDs ctx w xs = (Inl (Wrap ErrPersistenceFailed (Error e)), w')"
    using d ne na by (simp add: school_Create_fail)
  show "school_Update Ns TDs ctx w xs = (Inl (Wrap ErrUpdateFailed (Error e)), w')"
    using d ne na by (simp add: school_Update_fail)
  show "school_Delete ctx w i = (Some (Wrap ErrDeleteFailed (Error e)), w')"
    using d ne na by (simp add: school_Delete_fail)
  show "review_FindAll TDr ctx w = (Inl (Wrap ErrPersistenceFailed (Error e)), w')"
    using d ne na by (simp add: review_FindAll_fail)
  show "review_FindByID TDr ctx w i = (Inl (Wrap ErrPersistenceFailed (Error e)), w')"
    using d ne na by (simp add: review_FindByID_fail)
  show "review_FindUserReviews TDr ctx w i = (Inl (Wrap ErrPersistenceFailed (Error e)), w')"
    using d ne na by (simp add: review_FindUserReviews_fail)
  show "review_FindCourseReviews TDr ctx w i = (Inl (Wrap ErrPersistenceFailed (Error e)), w')"
    using d ne na by (simp add: review_FindCourseReviews_fail)
  show "review_Create uq Nr TDr ctx w xr = (Inl (Wrap ErrPersistenceFailed (Error e)), w')"
    using d ne na by (simp add: review_Create_fail)
  show "review_Delete ctx w i = (Some (Wrap ErrDeleteFailed (Error e)), w')"
    using d ne na by (simp add: review_Delete_fail)
  show "certificate_FindAll TDk ctx w = (Inl (Wrap ErrPersistenceFailed (Error e)), w')"
    using d ne na by (simp add: certificate_FindAll_fail)
  show "certificate_FindByID TDk ctx w i = (Inl (Wrap ErrPersistenceFailed (Error e)), w')"
    using d ne na by (simp add: certificate_FindByID_fail)
  show "certificate_FindUserCertificates TDk ctx w i = (Inl (Wrap ErrPersistenceFailed (Error e)), w')"
    using d ne na by (simp add: certificate_FindUserCertificates_fail)
  show "certificate_FindUserCourseCertificate TDk ctx w i j = (Inl (Wrap ErrPersistenceFailed (Error e)), w')"
    using d ne na by (simp add: certificate_FindUserCourseCertificate_fail)
  show "certificate_Create uq en Nk TDk ctx w xk = (Inl (Wrap ErrPersistenceFailed (Error e)), w')"
    using d ne na by (simp add: certificate_Create_fail)
next
  assume d: "driver_call ctx' v = (None, va)" "driver_call ctx' va = (Some e', vb)"
    and c: "e' = Canceled \<or> e' = DeadlineExceeded"
  from c have ne: "e' \<noteq> ErrNoRows" by auto
  show "fst (user_Create uq Nu TDu ctx' v xu) = Inl (Wrap ErrPersistenceFailed (Error e'))"
    using d ne by (simp add: user_Create_readback_fail)
  show "fst (user_Update Nu TDu ctx' v xu) = Inl (Wrap ErrPersistenceFailed (Error e'))"
    using d ne by (simp add: user_Update_readback_fail)
  show "fst (school_Create uq Ns TDs ctx' v xs) = Inl (Wrap ErrPersistenceFailed (Error e'))"
    using d ne by (simp add: school_Create_readback_fail)
  show "fst (school_Update Ns TDs ctx' v xs) = Inl (Wrap ErrPersistenceFailed (Error e'))"
    using d ne by (simp add: school_Update_readback_fail)
  show "fst (review_Create uq Nr TDr ctx' v xr) = Inl (Wrap ErrPersistenceFailed (Error e'))"
    using d ne by (simp add: review_Create_readback_fail)
  show "fst (certificate_Create uq en Nk TDk ctx' v xk) = Inl (Wrap ErrPersistenceFailed (Error e'))"
    using d ne by (simp add: certificate_Create_readback_fail)
qed

text \<open>
  C4, witness: a context cancelled before the call, and a deadline that expires between the
  INSERT and the read-back of \<open>Create\<close>.
\<close>

theorem cancellation_is_classified_witness:
  "driver_call Cancelled (sample_world []) = (Some Canceled, sample_world []) \<and>
   (Canceled = Canceled \<or> Canceled = DeadlineExceeded) \<and>
   driver_call Active (sample_world [None, Some DeadlineExceeded])
     = (None, sample_world [Some DeadlineExceeded]) \<and>
   driver_call Active (sample_world [Some DeadlineExceeded])
     = (Some DeadlineExceeded, sample_world []) \<and>
   (DeadlineExceeded = Canceled \<or> DeadlineExceeded = DeadlineExceeded) \<and>
   user_FindByID id Cancelled (sample_world []) ''u1''
     = (Inl (Wrap ErrPersistenceFailed ''context canceled''), sample_world []) \<and>
   user_Update id id Cancelled (sample_world []) [(''id'', ''u2''), (''email'', ''b@x.com'')]
     = (Inl (Wrap ErrUpdateFailed ''context canceled''), sample_world []) \<and>
   user_Delete Cancelled (sample_world []) ''u1''
     = (Some (Wrap ErrDeleteFailed ''context canceled''), sample_world []) \<and>
   fst (user_Create ''23505'' id id Active (sample_world [None, Some DeadlineExceeded])
          [(''id'', ''u2''), (''email'', ''b@x.com'')])
     = Inl (Wrap ErrPersistenceFailed ''context deadline exceeded'')"
proof -
  have d: "driver_call Cancelled (sample_world []) = (Some Canceled, sample_world [])" by simp
  have c: "Canceled = Canceled \<or> Canceled = DeadlineExceeded" by simp
  have da: "driver_call Active (sample_world [None, Some DeadlineExceeded])
     = (None, sample_world [Some DeadlineExceeded])" by simp
  have db: "driver_call Active (sample_world [Some DeadlineExceeded])
     = (Some DeadlineExceeded, sample_world [])" by simp
  have c': "DeadlineExceeded = Canceled \<or> DeadlineExceeded = DeadlineExceeded" by simp
  note T = cancellation_is_classified [where ctx = Cancelled and w = "sample_world []" and e = Canceled
      and w' = "sample_world []" and ctx' = Active
      and v = "sample_world [None, Some DeadlineExceeded]"
      and va = "sample_world [Some DeadlineExceeded]" and e' = DeadlineExceeded
      and vb = "sample_world []" and TDu = id and Nu = id and TDs = id and Ns = id
      and TDr = id and Nr = id and TDk = id and Nk = id and TDc = id
      and uq = "''23505''" and i = "''u1''"
      and xu = "[(''id'', ''u2''), (''email'', ''b@x.com'')]"]
  from T d c have a1: "user_FindByID id Cancelled (sample_world []) ''u1''
     = (Inl (Wrap ErrPersistenceFailed (Error Canceled)), sample_world [])"
    by blast
  from T d c have a2: "user_Delete Cancelled (sample_world []) ''u1''
     = (Some (Wrap ErrDeleteFailed (Error Canceled)), sample_world [])"
    by blast
  from T da db c' have a3:
    "fst (user_Create ''23505'' id id Active (sample_world [None, Some DeadlineExceeded])
          [(''id'', ''u2''), (''email'', ''b@x.com'')])
     = Inl (Wrap ErrPersistenceFailed (Error DeadlineExceeded))"
    by blast
  from T d c have a4:
    "user_Update id id Cancelled (sample_world []) [(''id'', ''u2''), (''email'', ''b@x.com'')]
     = (Inl (Wrap ErrUpdateFailed (Error Canceled)), sample_world [])"
    by blast
  show ?thesis using d c da db c' a1 a2 a3 a4 by simp
qed



text \<open>
  C6 (Update of a missing row). When no row of the relation has the entity's ID and both
  driver calls run, the write step returns without error, reporting zero rows affected (a
  count the method discards), and \<open>Update\<close> fails with \<open>ErrNotExist\<close> from the read-back.
  When the driver call of the UPDATE statement itself fails, \<open>Update\<close> returns
  \<open>ErrUpdateFailed\<close> with the failure's text. This holds for users and schools, the two
  repositories with an \<open>Update\<close>.
\<close>

theorem Update_of_missing_row:
  "(driver_call ctx w = (None, wa) \<and> driver_call ctx wa = (None, wb) \<and>
    rows_by_ID (tables w) ''user'' (row_ID (Nu xu)) = [] \<longrightarrow>
      NamedExecContext ctx w (UpdateQueryString (Nu xu) ''user'') (Nu xu) = (Inr 0, wa) \<and>
      user_Update Nu TDu ctx w xu = (Inl (Wrap ErrNotExist (Error ErrNoRows)), wb)) \<and>
   (driver_call ctx w = (None, wa) \<and> driver_call ctx wa = (None, wb) \<and>
    rows_by_ID (tables w) ''school'' (row_ID (Ns xs)) = [] \<longrightarrow>
      NamedExecContext ctx w (UpdateQueryString (Ns xs) ''school'') (Ns xs) = (Inr 0, wa) \<and>
      school_Update Ns TDs ctx w xs = (Inl (Wrap ErrNotExist (Error ErrNoRows)), wb)) \<and>
   (driver_call ctx' v = (Some e, v') \<longrightarrow>
      user_Update Nu TDu ctx' v xu = (Inl (Wrap ErrUpdateFailed (Error e)), v') \<and>
      school_Update Ns TDs ctx' v xs = (Inl (Wrap ErrUpdateFailed (Error e)), v'))"
proof (intro conjI impI; (elim conjE)?)
  assume "driver_call ctx' v = (Some e, v')"
  then show "user_Update Nu TDu ctx' v xu = (Inl (Wrap ErrUpdateFailed (Error e)), v')"
    and "school_Update Ns TDs ctx' v xs = (Inl (Wrap ErrUpdateFailed (Error e)), v')"
    by (simp_all add: user_Update_fail school_Update_fail)
qed (rule user_Update_missing school_Update_missing; assumption)+

text \<open>
  C6, witness: updating the unknown ID \<open>x9\<close> in the sample database, and an update
  whose statement hits a refused connection.
\<close>

theorem Update_of_missing_row_witness:
  "driver_call Active (sample_world []) = (None, sample_world []) \<and>
   rows_by_ID (tables (sample_world [])) ''user'' (row_ID (id [(''id'', ''x9''), (''email'', ''c@x.com'')])) = [] \<and>
   rows_by_ID (tables (sample_world [])) ''school'' (row_ID (id [(''id'', ''x9''), (''name'', ''Gymnasium'')])) = [] \<and>
   driver_call Active (sample_world [Some (DriverFailure ''connection refused'')])
     = (Some (DriverFailure ''connection refused''), sample_world []) \<and>
   user_Update id id Active (sample_world []) [(''id'', ''x9''), (''email'', ''c@x.com'')]
     = (Inl (Wrap ErrNotExist ''sql: no rows in result set''), sample_world []) \<and>
   school_Update id id Active (sample_world []) [(''id'', ''x9''), (''name'', ''Gymnasium'')]
     = (Inl (Wrap ErrNotExist ''sql: no rows in result set''), sample_world []) \<and>
   user_Update id id Active (sample_world [Some (DriverFailure ''connection refused'')])
       [(''id'', ''x9''), (''email'', ''c@x.com'')]
     = (Inl (Wrap ErrUpdateFailed ''connection refused''), sample_world [])"
proof -
  have d: "driver_call Active (sample_world []) = (None, sample_world [])" by simp
  have h: "rows_by_ID (tables (sample_world [])) ''user''
             (row_ID (id [(''id'', ''x9''), (''email'', ''c@x.com'')])) = []"
    "rows_by_ID (tables (sample_world [])) ''school''
             (row_ID (id [(''id'', ''x9''), (''name'', ''Gymnasium'')])) = []"
    by (simp_all add: rows_by_ID_def row_ID_def column_def)
  have f: "driver_call Active (sample_world [Some (DriverFailure ''connection refused'')])
     = (Some (DriverFailure ''connection refused''), sample_world [])" by simp
  note T = Update_of_missing_row [where ctx = Active and w = "sample_world []" and wa = "sample_world []"
      and wb = "sample_world []" and Nu = id and TDu = id and Ns = id and TDs = id
      and xu = "[(''id'', ''x9''), (''email'', ''c@x.com'')]"
      and xs = "[(''id'', ''x9''), (''name'', ''Gymnasium'')]" and ctx' = Active
      and v = "sample_world [Some (DriverFailure ''connection refused'')]"
      and e = "DriverFailure ''connection refused''" and v' = "sample_world []"]
  from T d h have a:
    "user_Update id id Active (sample_world []) [(''id'', ''x9''), (''email'', ''c@x.com'')]
       = (Inl (Wrap ErrNotExist (Error ErrNoRows)), sample_world [])"
    by blast
  from T d h have b:
    "school_Update id id Active (sample_world []) [(''id'', ''x9''), (''name'', ''Gymnasium'')]
       = (Inl (Wrap ErrNotExist (Error ErrNoRows)), sample_world [])"
    by blast
  from T f have c:
    "user_Update id id Active (sample_world [Some (DriverFailure ''connection refused'')])
         [(''id'', ''x9''), (''email'', ''c@x.com'')]
       = (Inl (Wrap ErrUpdateFailed (Error (DriverFailure ''connection refused''))),
          sample_world [])"
    by blast
  show ?thesis using d h f a b c by simp
qed

text \<open>
  C7 (FindByID of a missing row). When no row of the relation has the ID, \<open>FindByID\<close>
  never returns an entity (its result is an error, whatever the driver does), and when the
  driver call runs the error is \<open>ErrNotExist\<close>, wrapping the text of \<open>sql.ErrNoRows\<close>. This
  holds for the four repositories.
\<close>

theorem FindByID_missing_row:
  "(rows_by_ID (tables w) ''user'' i = [] \<longrightarrow>
      isl (fst (user_FindByID TDu ctx w i)) \<and>
      (driver_call ctx w = (None, w') \<longrightarrow>
       user_FindByID TDu ctx w i = (Inl (Wrap ErrNotExist (Error ErrNoRows)), w'))) \<and>
   (rows_by_ID (tables w) ''school'' i = [] \<longrightarrow>
      isl (fst (school_FindByID TDs ctx w i)) \<and>
      (driver_call ctx w = (None, w') \<longrightarrow>
       school_FindByID TDs ctx w i = (Inl (Wrap ErrNotExist (Error ErrNoRows)), w'))) \<and>
   (rows_by_ID (tables w) ''review'' i = [] \<longrightarrow>
      isl (fst (review_FindByID TDr ctx w i)) \<and>
      (driver_call ctx w = (None, w') \<longrightarrow>
       review_FindByID TDr ctx w i = (Inl (Wrap ErrNotExist (Error ErrNoRows)), w'))) \<and>
   (rows_by_ID (tables w) ''certificate'' i = [] \<longrightarrow>
      isl (fst (certificate_FindByID TDk ctx w i)) \<and>
      (driver_call ctx w = (None, w') \<longrightarrow>
       certificate_FindByID TDk ctx w i = (Inl (Wrap ErrNotExist (Error ErrNoRows)), w')))"
  by (simp add: user_FindByID_missing school_FindByID_missing review_FindByID_missing
      certificate_FindByID_missing user_FindByID_run school_FindByID_run review_FindByID_run
      certificate_FindByID_run)

text \<open>
  C7, witness: the ID \<open>x9\<close> is in no relation of the sample database.
\<close>

theorem FindByID_missing_row_witness:
  "rows_by_ID (tables (sample_world [])) ''user'' ''x9'' = [] \<and>
   rows_by_ID (tables (sample_world [])) ''school'' ''x9'' = [] \<and>
   rows_by_ID (tables (sample_world [])) ''review'' ''x9'' = [] \<and>
   rows_by_ID (tables (sample_world [])) ''certificate'' ''x9'' = [] \<and>
   driver_call Active (sample_world []) = (None, sample_world []) \<and>
   user_FindByID id Active (sample_world []) ''x9''
     = (Inl (Wrap ErrNotExist ''sql: no rows in result set''), sample_world []) \<and>
   school_FindByID id Active (sample_world []) ''x9''
     = (Inl (Wrap ErrNotExist ''sql: no rows in result set''), sample_world []) \<and>
   review_FindByID id Active (sample_world []) ''x9''
     = (Inl (Wrap ErrNotExist ''sql: no rows in result set''), sample_world []) \<and>
   certificate_FindByID id Active (sample_world []) ''x9''
     = (Inl (Wrap ErrNotExist ''sql: no rows in result set''), sample_world [])"
proof -
  have h: "rows_by_ID (tables (sample_world [])) ''user'' ''x9'' = []"
    "rows_by_ID (tables (sample_world [])) ''school'' ''x9'' = []"
    "rows_by_ID (tables (sample_world [])) ''review'' ''x9'' = []"
    "rows_by_ID (tables (sample_world [])) ''certificate'' ''x9'' = []"
    by (simp_all add: rows_by_ID_def)
  have d: "driver_call Active (sample_world []) = (None, sample_world [])" by simp
  show ?thesis
    using h d FindByID_missing_row [where w = "sample_world []" and i = "''x9''" and ctx = Active
        and w' = "sample_world []" and TDu = id and TDs = id and TDr = id and TDk = id]
    by simp
qed

text \<open>
  C8 (unique violation). When the driver call of the INSERT fails with a server error whose
  code is \<open>PgUniqueViolationCode\<close>, each of the four \<open>Create\<close> methods and
  \<open>AddSchoolTeacher\<close> returns \<open>ErrDuplicate\<close> with the failure's text, and the relations are
  as before the call.
\<close>

theorem unique_violation_is_Duplicate:
  assumes "driver_call ctx w = (Some (Pg p), w')" and "Code p = PgUniqueViolationCode"
  shows "user_Create PgUniqueViolationCode Nu TDu ctx w xu
           = (Inl (Wrap ErrDuplicate (Error (Pg p))), w') \<and>
         school_Create PgUniqueViolationCode Ns TDs ctx w xs
           = (Inl (Wrap ErrDuplicate (Error (Pg p))), w') \<and>
         review_Create PgUniqueViolationCode Nr TDr ctx w xr
           = (Inl (Wrap ErrDuplicate (Error (Pg p))), w') \<and>
         certificate_Create PgUniqueViolationCode PgEnumValueError Nk TDk ctx w xk
           = (Inl (Wrap ErrDuplicate (Error (Pg p))), w') \<and>
         school_AddSchoolTeacher PgUniqueViolationCode ctx w schoolID teacherID
           = (Some (Wrap ErrDuplicate (Error (Pg p))), w') \<and>
         tables w' = tables w"
  using assms
  by (simp add: user_Create_fail school_Create_fail review_Create_fail certificate_Create_fail
      school_AddSchoolTeacher_fail driver_call_tables)

text \<open>
  C8, witness: the server rejects the INSERT with SQLSTATE 23505.
\<close>

theorem unique_violation_is_Duplicate_witness:
  "driver_call Active (sample_world [Some (Pg unique_violation)])
     = (Some (Pg unique_violation), sample_world []) \<and>
   Code unique_violation = ''23505'' \<and>
   user_Create ''23505'' id id Active (sample_world [Some (Pg unique_violation)])
       [(''id'', ''u2''), (''email'', ''a@x.com'')]
     = (Inl (Wrap ErrDuplicate ''ERROR: duplicate key value (SQLSTATE 23505)''), sample_world []) \<and>
   school_AddSchoolTeacher ''23505'' Active (sample_world [Some (Pg unique_violation)]) ''s1'' ''u1''
     = (Some (Wrap ErrDuplicate ''ERROR: duplicate key value (SQLSTATE 23505)''), sample_world [])"
proof -
  have d: "driver_call Active (sample_world [Some (Pg unique_violation)])
     = (Some (Pg unique_violation), sample_world [])"
    by simp
  have c: "Code unique_violation = ''23505''" by (simp add: unique_violation_def)
  show ?thesis
    using d c unique_violation_is_Duplicate [OF d c, where Nu = id and TDu = id and Ns = id and TDs = id and Nr = id
        and TDr = id and Nk = id and TDk = id and PgEnumValueError = "''22P02''"
        and xu = "[(''id'', ''u2''), (''email'', ''a@x.com'')]"
        and schoolID = "''s1''" and teacherID = "''u1''"]
    by (simp add: unique_violation_def)
qed

text \<open>
  C9 (Delete). When its one driver call runs, \<open>Delete\<close> of a user or a school returns no
  error and removes exactly the rows of its relation with that ID; with no such row the
  database is left as it was and the result is still no error. \<open>Delete\<close> of a review
  does the same with the one statement it runs, \<open>reviewDeleteQuery\<close>: one driver call, no
  error, and exactly the rows with that ID removed from the relation that statement names
  (\<open>school\<close>), nothing else changed and nothing read before. When the driver call fails,
  the three methods return \<open>ErrDeleteFailed\<close> with the failure's text and leave the
  relations alone, and none of them ever returns \<open>ErrNotExist\<close>.
\<close>

theorem Delete_without_existence_check:
  "(driver_call ctx w = (None, w') \<longrightarrow>
      user_Delete ctx w i =
        (None, w'\<lparr>tables := (tables w)(''user'' :=
           filter (\<lambda>r. map_of r ''id'' \<noteq> Some i) (tables w ''user''))\<rparr>) \<and>
      school_Delete ctx w i =
        (None, w'\<lparr>tables := (tables w)(''school'' :=
           filter (\<lambda>r. map_of r ''id'' \<noteq> Some i) (tables w ''school''))\<rparr>) \<and>
      review_Delete ctx w i =
        (None, w'\<lparr>tables := (tables w)(''school'' :=
           filter (\<lambda>r. map_of r ''id'' \<noteq> Some i) (tables w ''school''))\<rparr>) \<and>
      fst (review_Delete ctx w i) = None) \<and>
   (driver_call ctx w = (None, w') \<and> rows_by_ID (tables w) ''user'' i = [] \<longrightarrow>
      user_Delete ctx w i = (None, w')) \<and>
   (driver_call ctx w = (None, w') \<and> rows_by_ID (tables w) ''school'' i = [] \<longrightarrow>
      school_Delete ctx w i = (None, w')) \<and>
   (driver_call ctx w = (None, w') \<and> rows_by_ID (tables w) ''school'' i = [] \<longrightarrow>
      review_Delete ctx w i = (None, w')) \<and>
   (driver_call ctx' v = (Some e, v') \<longrightarrow>
      user_Delete ctx' v i = (Some (Wrap ErrDeleteFailed (Error e)), v') \<and>
      school_Delete ctx' v i = (Some (Wrap ErrDeleteFailed (Error e)), v') \<and>
      review_Delete ctx' v i = (Some (Wrap ErrDeleteFailed (Error e)), v')) \<and>
   fst (user_Delete ctx'' u i) \<noteq> Some (Wrap ErrNotExist m) \<and>
   fst (school_Delete ctx'' u i) \<noteq> Some (Wrap ErrNotExist m) \<and>
   fst (review_Delete ctx'' u i) \<noteq> Some (Wrap ErrNotExist m)"
proof (intro conjI)
  show "driver_call ctx w = (None, w') \<longrightarrow>
      user_Delete ctx w i =
        (None, w'\<lparr>tables := (tables w)(''user'' :=
           filter (\<lambda>r. map_of r ''id'' \<noteq> Some i) (tables w ''user''))\<rparr>) \<and>
      school_Delete ctx w i =
        (None, w'\<lparr>tables := (tables w)(''school'' :=
           filter (\<lambda>r. map_of r ''id'' \<noteq> Some i) (tables w ''school''))\<rparr>) \<and>
      review_Delete ctx w i =
        (None, w'\<lparr>tables := (tables w)(''school'' :=
           filter (\<lambda>r. map_of r ''id'' \<noteq> Some i) (tables w ''school''))\<rparr>) \<and>
      fst (review_Delete ctx w i) = None"
    by (simp add: user_Delete_run school_Delete_run review_Delete_run)
  show "driver_call ctx w = (None, w') \<and> rows_by_ID (tables w) ''user'' i = [] \<longrightarrow>
      user_Delete ctx w i = (None, w')"
    by (simp add: user_Delete_missing)
  show "driver_call ctx w = (None, w') \<and> rows_by_ID (tables w) ''school'' i = [] \<longrightarrow>
      school_Delete ctx w i = (None, w')"
    by (simp add: school_Delete_missing)
  show "driver_call ctx w = (None, w') \<and> rows_by_ID (tables w) ''school'' i = [] \<longrightarrow>
      review_Delete ctx w i = (None, w')"
    by (simp add: review_Delete_missing)
  show "driver_call ctx' v = (Some e, v') \<longrightarrow>
      user_Delete ctx' v i = (Some (Wrap ErrDeleteFailed (Error e)), v') \<and>
      school_Delete ctx' v i = (Some (Wrap ErrDeleteFailed (Error e)), v') \<and>
      review_Delete ctx' v i = (Some (Wrap ErrDeleteFailed (Error e)), v')"
    by (simp add: user_Delete_fail school_Delete_fail review_Delete_fail)
qed (rule user_Delete_not_NotExist school_Delete_not_NotExist review_Delete_not_NotExist)+

text \<open>
  C9, witness: deleting the unknown ID \<open>x9\<close>, and a delete that hits a refused
  connection.
\<close>

theorem Delete_without_existence_check_witness:
  "driver_call Active (sample_world []) = (None, sample_world []) \<and>
   rows_by_ID (tables (sample_world [])) ''user'' ''x9'' = [] \<and>
   rows_by_ID (tables (sample_world [])) ''school'' ''x9'' = [] \<and>
   driver_call Active (sample_world [Some (DriverFailure ''connection refused'')])
     = (Some (DriverFailure ''connection refused''), sample_world []) \<and>
   user_Delete Active (sample_world []) ''x9'' = (None, sample_world []) \<and>
   school_Delete Active (sample_world []) ''x9'' = (None, sample_world []) \<and>
   review_Delete Active (sample_world []) ''x9'' = (None, sample_world []) \<and>
   user_Delete Active (sample_world [Some (DriverFailure ''connection refused'')]) ''x9''
     = (Some (Wrap ErrDeleteFailed ''connection refused''), sample_world []) \<and>
   review_Delete Active (sample_world [Some (DriverFailure ''connection refused'')]) ''x9''
     = (Some (Wrap ErrDeleteFailed ''connection refused''), sample_world [])"
proof -
  have d: "driver_call Active (sample_world []) = (None, sample_world [])" by simp
  have h: "rows_by_ID (tables (sample_world [])) ''user'' ''x9'' = []"
    "rows_by_ID (tables (sample_world [])) ''school'' ''x9'' = []"
    by (simp_all add: rows_by_ID_def)
  have f: "driver_call Active (sample_world [Some (DriverFailure ''connection refused'')])
     = (Some (DriverFailure ''connection refused''), sample_world [])" by simp
  note T = Delete_without_existence_check [where ctx = Active and w = "sample_world []" and w' = "sample_world []"
        and i = "''x9''" and ctx' = Active
        and v = "sample_world [Some (DriverFailure ''connection refused'')]"
        and e = "DriverFailure ''connection refused''" and v' = "sample_world []"]
  from T d h have a: "user_Delete Active (sample_world []) ''x9'' = (None, sample_world [])"
    by blast
  from T d h have b: "school_Delete Active (sample_world []) ''x9'' = (None, sample_world [])"
    by blast
  from T f have c:
    "user_Delete Active (sample_world [Some (DriverFailure ''connection refused'')]) ''x9''
       = (Some (Wrap ErrDeleteFailed (Error (DriverFailure ''connection refused''))),
          sample_world [])"
    by blast
  from T d h have b': "review_Delete Active (sample_world []) ''x9'' = (None, sample_world [])"
    by blast
  from T f have c':
    "review_Delete Active (sample_world [Some (DriverFailure ''connection refused'')]) ''x9''
       = (Some (Wrap ErrDeleteFailed (Error (DriverFailure ''connection refused''))),
          sample_world [])"
    by blast
  show ?thesis using d h f a b b' c c' by simp
qed

text \<open>
  C10 (Update never reports a constraint kind). Every failure of the driver call of the UPDATE
  statement, a unique or enum violation included, is returned as \<open>ErrUpdateFailed\<close>; and
  whatever happens, \<open>Update\<close> of a user or a school never returns \<open>ErrDuplicate\<close> or
  \<open>ErrEnumValueError\<close>.
\<close>

theorem Update_write_failure_is_UpdateFailed:
  "(driver_call ctx w = (Some e, w') \<longrightarrow>
      user_Update Nu TDu ctx w xu = (Inl (Wrap ErrUpdateFailed (Error e)), w') \<and>
      school_Update Ns TDs ctx w xs = (Inl (Wrap ErrUpdateFailed (Error e)), w')) \<and>
   fst (user_Update Nu TDu ctx' v xu) \<noteq> Inl (Wrap ErrDuplicate m) \<and>
   fst (user_Update Nu TDu ctx' v xu) \<noteq> Inl (Wrap ErrEnumValueError m) \<and>
   fst (school_Update Ns TDs ctx' v xs) \<noteq> Inl (Wrap ErrDuplicate m) \<and>
   fst (school_Update Ns TDs ctx' v xs) \<noteq> Inl (Wrap ErrEnumValueError m)"
proof -
  have "fst (user_Update Nu TDu ctx' v xu) \<noteq> Inl (Wrap ErrDuplicate m)"
    "fst (user_Update Nu TDu ctx' v xu) \<noteq> Inl (Wrap ErrEnumValueError m)"
    using user_Update_kinds [of Nu TDu ctx' v xu _ m] by auto
  moreover have "fst (school_Update Ns TDs ctx' v xs) \<noteq> Inl (Wrap ErrDuplicate m)"
    "fst (school_Update Ns TDs ctx' v xs) \<noteq> Inl (Wrap ErrEnumValueError m)"
    using school_Update_kinds [of Ns TDs ctx' v xs _ m] by auto
  ultimately show ?thesis by (simp add: user_Update_fail school_Update_fail)
qed

text \<open>
  C10, witness: the server rejects the UPDATE of a user with SQLSTATE 23505 and the UPDATE
  of a school with SQLSTATE 22P02.
\<close>

theorem Update_write_failure_is_UpdateFailed_witness:
  "driver_call Active (sample_world [Some (Pg unique_violation)])
     = (Some (Pg unique_violation), sample_world []) \<and>
   user_Update id id Active (sample_world [Some (Pg unique_violation)])
       [(''id'', ''u1''), (''email'', ''b@x.com'')]
     = (Inl (Wrap ErrUpdateFailed ''ERROR: duplicate key value (SQLSTATE 23505)''),
        sample_world []) \<and>
   school_Update id id Active (sample_world [Some (Pg enum_violation)])
       [(''id'', ''s1''), (''name'', ''Gymnasium'')]
     = (Inl (Wrap ErrUpdateFailed ''ERROR: invalid input value for enum (SQLSTATE 22P02)''),
        sample_world [])"
proof -
  have d: "driver_call Active (sample_world [Some (Pg unique_violation)])
     = (Some (Pg unique_violation), sample_world [])" by simp
  have d': "driver_call Active (sample_world [Some (Pg enum_violation)])
     = (Some (Pg enum_violation), sample_world [])" by simp
  show ?thesis
    using d Update_write_failure_is_UpdateFailed [where ctx = Active and w = "sample_world [Some (Pg unique_violation)]"
        and e = "Pg unique_violation" and w' = "sample_world []" and Nu = id and TDu = id
        and Ns = id and TDs = id and xu = "[(''id'', ''u1''), (''email'', ''b@x.com'')]"]
      d' Update_write_failure_is_UpdateFailed [where ctx = Active and w = "sample_world [Some (Pg enum_violation)]"
        and e = "Pg enum_violation" and w' = "sample_world []" and Nu = id and TDu = id
        and Ns = id and TDs = id and xs = "[(''id'', ''s1''), (''name'', ''Gymnasium'')]"]
    by (simp add: unique_violation_def enum_violation_def)
qed

end
